theory Spec2Isabelle
  imports Main
begin

section \<open>Protocol errors and thrown values\<close>

text \<open>
  The error codes of the protocol SDK (\<^verbatim>\<open>ErrorCode\<close> of
  \<^verbatim>\<open>@modelcontextprotocol/sdk/types.js\<close>, imported by \<^verbatim>\<open>index.ts\<close>). The
  dispatcher itself constructs errors with \<^verbatim>\<open>InvalidParams\<close>, \<^verbatim>\<open>MethodNotFound\<close>
  and \<^verbatim>\<open>InternalError\<close> only; the other members are the codes an error thrown by
  a collaborator may carry.
\<close>

datatype ErrorCode =
  ConnectionClosed | RequestTimeout | ParseError | InvalidRequest
  | MethodNotFound | InvalidParams | InternalError

text \<open>
  \<^verbatim>\<open>new McpError(code, message)\<close>: the two constructor arguments.
\<close>

datatype McpError = McpError (code: ErrorCode) (message: string)

text \<open>
  What a \<^verbatim>\<open>throw\<close> or a rejected promise carries, as far as the \<^verbatim>\<open>catch\<close>
  block of the dispatcher can tell: either an instance of \<^verbatim>\<open>McpError\<close>, or
  anything else, of which only the string conversion \<^verbatim>\<open>`${error}`\<close> is used.
  That conversion yields a string (\<open>ThrownOther\<close> carries it: for an \<^verbatim>\<open>Error\<close> object
  its name and message), or it throws in its turn, as it does for a \<^verbatim>\<open>Symbol\<close> and
  for an object without a usable \<^verbatim>\<open>toString\<close>: \<open>ThrownUnprintable t\<close> is a value whose
  conversion throws \<open>t\<close>.
\<close>

datatype thrown = ThrownMcp McpError | ThrownOther string | ThrownUnprintable thrown

section \<open>Argument objects and required-field validation\<close>

text \<open>
  \<^verbatim>\<open>Record<string, unknown> | undefined\<close>: an argument object maps field names to
  values of any kind (the type parameter \<open>'v\<close>); \<open>None\<close> is \<^verbatim>\<open>undefined\<close>.
\<close>

type_synonym 'v arguments = "string \<rightharpoonup> 'v"

text \<open>
  The operator \<^verbatim>\<open>field in args\<close> holds for an own property of the object and for
  a property inherited along its prototype chain. An argument object comes from a
  parsed JSON-RPC message, so its prototype is \<^verbatim>\<open>Object.prototype\<close>, whose
  property names are listed here.
\<close>

definition Object_prototype_properties :: "string list" where
  "Object_prototype_properties =
     [''constructor'', ''__defineGetter__'', ''__defineSetter__'', ''hasOwnProperty'',
      ''__lookupGetter__'', ''__lookupSetter__'', ''isPrototypeOf'',
      ''propertyIsEnumerable'', ''toString'', ''valueOf'', ''__proto__'',
      ''toLocaleString'']"

definition js_in :: "string \<Rightarrow> 'v arguments \<Rightarrow> bool" where
  "js_in field args = (args field \<noteq> None \<or> field \<in> set Object_prototype_properties)"

text \<open>
  The loop \<^verbatim>\<open>for (const field of requiredFields)\<close> of \<^verbatim>\<open>validateArgs\<close>: the
  first field that is not \<^verbatim>\<open>in args\<close> throws.
\<close>

fun check_required :: "'v arguments \<Rightarrow> string list \<Rightarrow> McpError + 'v arguments" where
  "check_required args [] = Inr args"
| "check_required args (field # rest) =
     (if \<not> js_in field args
      then Inl (McpError InvalidParams (''Missing required field: '' @ field))
      else check_required args rest)"

definition validateArgs :: "'v arguments option \<Rightarrow> string list \<Rightarrow> McpError + 'v arguments" where
  "validateArgs args requiredFields =
     (case args of
        None \<Rightarrow> Inl (McpError InvalidParams ''Arguments are required'')
      | Some a \<Rightarrow> check_required a requiredFields)"

section \<open>JSON values and \<^verbatim>\<open>JSON.stringify(value, null, 2)\<close>\<close>

text \<open>
  A JSON value as the runtime holds it after parsing. A string is the list of the bytes
  of its UTF-8 encoding; a number is an integer (numbers with a fraction or an exponent
  are floating point and outside this model); an object is the list of its members in
  the order the runtime enumerates them.
\<close>

datatype json =
  JNull | JBool bool | JNum int | JStr string | JArr "json list"
  | JObj "(string \<times> json) list"

definition newline :: string where
  "newline = [CHR 0x0A]"

definition digit_char :: "nat \<Rightarrow> char" where
  "digit_char d = char_of (48 + d)"

fun show_nat :: "nat \<Rightarrow> string" where
  "show_nat n = (if n < 10 then [digit_char n] else show_nat (n div 10) @ [digit_char (n mod 10)])"

declare show_nat.simps [simp del]

text \<open>
  \<^verbatim>\<open>Number::toString\<close> on a safe integer (of magnitude at most \<open>2\<^sup>5\<^sup>3 - 1\<close>): its
  decimal digits, after a minus sign when it is negative.
\<close>

definition show_int :: "int \<Rightarrow> string" where
  "show_int i = (if i < 0 then CHR ''-'' # show_nat (nat (- i)) else show_nat (nat i))"

definition hex_char :: "nat \<Rightarrow> char" where
  "hex_char d = (if d < 10 then char_of (48 + d) else char_of (87 + d))"

text \<open>
  \<^verbatim>\<open>QuoteJSONString\<close>: the quotation mark, the backslash and the control characters
  below U+0020 are escaped (five of them by a short escape, the others as
  \<^verbatim>\<open>\u00xx\<close> with lower-case digits); every other character stands for itself.
\<close>

definition escape_char :: "char \<Rightarrow> string" where
  "escape_char c =
     (if c = CHR 0x08 then [CHR 0x5C, CHR ''b'']
      else if c = CHR 0x09 then [CHR 0x5C, CHR ''t'']
      else if c = CHR 0x0A then [CHR 0x5C, CHR ''n'']
      else if c = CHR 0x0C then [CHR 0x5C, CHR ''f'']
      else if c = CHR 0x0D then [CHR 0x5C, CHR ''r'']
      else if c = CHR 0x22 then [CHR 0x5C, CHR 0x22]
      else if c = CHR 0x5C then [CHR 0x5C, CHR 0x5C]
      else if of_char c < (32 :: nat)
        then [CHR 0x5C, CHR ''u'', CHR ''0'', CHR ''0'',
              hex_char (of_char c div 16), hex_char (of_char c mod 16)]
      else [c])"

definition QuoteJSONString :: "string \<Rightarrow> string" where
  "QuoteJSONString s = CHR 0x22 # concat (map escape_char s) @ [CHR 0x22]"

fun join :: "string \<Rightarrow> string list \<Rightarrow> string" where
  "join sep [] = []"
| "join sep [x] = x"
| "join sep (x # y # zs) = x @ sep @ join sep (y # zs)"

text \<open>
  \<^verbatim>\<open>SerializeJSONProperty\<close> with the gap of two spaces; \<open>indent\<close> is the current
  indentation. An empty array or object is printed without a line break.
\<close>

fun serialize :: "string \<Rightarrow> json \<Rightarrow> string" where
  "serialize indent JNull = ''null''"
| "serialize indent (JBool b) = (if b then ''true'' else ''false'')"
| "serialize indent (JNum i) = show_int i"
| "serialize indent (JStr s) = QuoteJSONString s"
| "serialize indent (JArr xs) =
     (if xs = [] then ''[]''
      else ''['' @ newline @ (indent @ ''  '')
           @ join ('','' @ newline @ (indent @ ''  '')) (map (serialize (indent @ ''  '')) xs)
           @ newline @ indent @ '']'')"
| "serialize indent (JObj ms) =
     (if ms = [] then ''{}''
      else ''{'' @ newline @ (indent @ ''  '')
           @ join ('','' @ newline @ (indent @ ''  ''))
               (map (\<lambda>(k, v). QuoteJSONString k @ '': '' @ serialize (indent @ ''  '') v) ms)
           @ newline @ indent @ ''}'')"

definition JSON_stringify :: "json \<Rightarrow> string" where
  "JSON_stringify v = serialize [] v"

section \<open>\<^verbatim>\<open>JSON.parse\<close>\<close>

text \<open>
  The parser of JSON text, for the round trip through \<^verbatim>\<open>JSON.stringify\<close>. It
  follows the JSON grammar. \<open>SyntaxError\<close> is the exception \<^verbatim>\<open>JSON.parse\<close> throws;
  \<open>NotModelled\<close> marks a text whose value lies outside this model of JSON values: a
  number with a fraction or an exponent, an integer beyond the safe range
  \<open>2\<^sup>5\<^sup>3 - 1\<close> (the runtime would round it), and an escape \<^verbatim>\<open>\uXXXX\<close> of a
  character that is not a single byte in UTF-8.
\<close>

datatype parse_error = SyntaxError | NotModelled

definition is_ws :: "char \<Rightarrow> bool" where
  "is_ws c = (c = CHR 0x09 \<or> c = CHR 0x0A \<or> c = CHR 0x0D \<or> c = CHR 0x20)"

fun skip_ws :: "string \<Rightarrow> string" where
  "skip_ws [] = []"
| "skip_ws (c # cs) = (if is_ws c then skip_ws cs else c # cs)"

definition is_digit :: "char \<Rightarrow> bool" where
  "is_digit c = (48 \<le> (of_char c :: nat) \<and> (of_char c :: nat) \<le> 57)"

definition digit_value :: "char \<Rightarrow> nat" where
  "digit_value c = of_char c - 48"

fun read_digits :: "nat \<Rightarrow> string \<Rightarrow> nat \<times> string" where
  "read_digits acc [] = (acc, [])"
| "read_digits acc (c # cs) =
     (if is_digit c then read_digits (10 * acc + digit_value c) cs else (acc, c # cs))"

definition max_safe_integer :: nat where
  "max_safe_integer = 2 ^ 53 - 1"

text \<open>
  The end of the integer part of a number: a fraction or an exponent that follows is
  outside the model, as is an integer beyond the safe range.
\<close>

definition finish_number :: "bool \<Rightarrow> nat \<Rightarrow> string \<Rightarrow> parse_error + json \<times> string" where
  "finish_number negative n rest =
     (if (case rest of
            [] \<Rightarrow> False
          | c # _ \<Rightarrow> c = CHR ''.'' \<or> c = CHR ''e'' \<or> c = CHR ''E'')
      then Inl NotModelled
      else if max_safe_integer < n then Inl NotModelled
      else Inr (JNum (if negative then - int n else int n), rest))"

text \<open>
  The integer part of a number after its sign: a single \<^verbatim>\<open>0\<close>, or a non-zero digit
  followed by digits.
\<close>

definition parse_unsigned :: "bool \<Rightarrow> string \<Rightarrow> parse_error + json \<times> string" where
  "parse_unsigned negative s =
     (case s of
        [] \<Rightarrow> Inl SyntaxError
      | c # cs \<Rightarrow>
          if c = CHR ''0'' then finish_number negative 0 cs
          else if is_digit c
            then (case read_digits 0 (c # cs) of (n, rest) \<Rightarrow> finish_number negative n rest)
          else Inl SyntaxError)"

definition parse_number :: "string \<Rightarrow> parse_error + json \<times> string" where
  "parse_number s =
     (case s of
        [] \<Rightarrow> Inl SyntaxError
      | c # cs \<Rightarrow> if c = CHR ''-'' then parse_unsigned True cs else parse_unsigned False (c # cs))"

definition hex_value :: "char \<Rightarrow> nat option" where
  "hex_value c =
     (let n = (of_char c :: nat) in
      if 48 \<le> n \<and> n \<le> 57 then Some (n - 48)
      else if 97 \<le> n \<and> n \<le> 102 then Some (n - 87)
      else if 65 \<le> n \<and> n \<le> 70 then Some (n - 55)
      else None)"

definition hex4 :: "char \<Rightarrow> char \<Rightarrow> char \<Rightarrow> char \<Rightarrow> nat option" where
  "hex4 a b c d =
     (case (hex_value a, hex_value b, hex_value c, hex_value d) of
        (Some x3, Some x2, Some x1, Some x0) \<Rightarrow> Some (((x3 * 16 + x2) * 16 + x1) * 16 + x0)
      | _ \<Rightarrow> None)"

definition prepend :: "char \<Rightarrow> parse_error + string \<times> string \<Rightarrow> parse_error + string \<times> string" where
  "prepend c r = (case r of Inl e \<Rightarrow> Inl e | Inr (s, rest) \<Rightarrow> Inr (c # s, rest))"

text \<open>
  The characters of a string after its opening quotation mark, up to and including
  the closing one. A control character below U+0020 must be escaped.
\<close>

fun parse_string_body :: "string \<Rightarrow> parse_error + string \<times> string" where
  "parse_string_body [] = Inl SyntaxError"
| "parse_string_body (c # cs) =
     (if c = CHR 0x22 then Inr ([], cs)
      else if c = CHR 0x5C then
        (case cs of
           [] \<Rightarrow> Inl SyntaxError
         | e # r \<Rightarrow>
             if e = CHR 0x22 then prepend (CHR 0x22) (parse_string_body r)
             else if e = CHR 0x5C then prepend (CHR 0x5C) (parse_string_body r)
             else if e = CHR ''/'' then prepend (CHR ''/'') (parse_string_body r)
             else if e = CHR ''b'' then prepend (CHR 0x08) (parse_string_body r)
             else if e = CHR ''f'' then prepend (CHR 0x0C) (parse_string_body r)
             else if e = CHR ''n'' then prepend (CHR 0x0A) (parse_string_body r)
             else if e = CHR ''r'' then prepend (CHR 0x0D) (parse_string_body r)
             else if e = CHR ''t'' then prepend (CHR 0x09) (parse_string_body r)
             else if e = CHR ''u'' then
               (case r of
                  h3 # h2 # h1 # h0 # r' \<Rightarrow>
                    (case hex4 h3 h2 h1 h0 of
                       None \<Rightarrow> Inl SyntaxError
                     | Some n \<Rightarrow>
                         if n < 128 then prepend (char_of n) (parse_string_body r')
                         else Inl NotModelled)
                | _ \<Rightarrow> Inl SyntaxError)
             else Inl SyntaxError)
      else if (of_char c :: nat) < 32 then Inl SyntaxError
      else prepend c (parse_string_body cs))"

lemma length_skip_ws: "length (skip_ws s) \<le> length s"
  by (induction s) auto

lemma skip_ws_Cons: "skip_ws s = d # r \<Longrightarrow> length r < length s"
  using length_skip_ws [of s] by simp

lemma prepend_Inr: "prepend c x = Inr (k, r) \<Longrightarrow> \<exists>k'. x = Inr (k', r)"
  by (auto simp add: prepend_def split: sum.splits)

lemma length_parse_string_body:
  "parse_string_body s = Inr (k, r) \<Longrightarrow> length r < length s"
proof (induction s arbitrary: k r rule: length_induct)
  case (1 s)
  note IH = "1.IH" [rule_format]
  note res = "1.prems"
  show ?case
  proof (cases s)
    case Nil
    with res show ?thesis by simp
  next
    case (Cons c cs)
    have step: "length r < length s" if "prepend x (parse_string_body t) = Inr (k, r)"
      and "length t < length s" for x t
    proof -
      from prepend_Inr [OF that(1)] obtain k' where "parse_string_body t = Inr (k', r)" by blast
      from IH [OF that(2) this] that(2) show ?thesis by simp
    qed
    show ?thesis
    proof (cases "c = CHR 0x22")
      case True
      with res Cons show ?thesis by simp
    next
      case quote: False
      show ?thesis
      proof (cases "c = CHR 0x5C")
        case False
        with quote res Cons have "prepend c (parse_string_body cs) = Inr (k, r)"
          by (simp split: if_splits)
        then show ?thesis by (rule step) (simp add: Cons)
      next
        case True
        show ?thesis
        proof (cases cs)
          case Nil
          with True quote res Cons show ?thesis by simp
        next
          case e: (Cons e t)
          show ?thesis
          proof (cases "e = CHR ''u''")
            case False
            with True quote res Cons e
            have "\<exists>x. prepend x (parse_string_body t) = Inr (k, r)"
              by (simp split: if_splits) blast+
            then obtain x where "prepend x (parse_string_body t) = Inr (k, r)" ..
            then show ?thesis by (rule step) (simp add: Cons e)
          next
            case u: True
            with True quote res Cons e
            obtain h3 h2 h1 h0 t' n where t: "t = h3 # h2 # h1 # h0 # t'"
              and "prepend (char_of (n :: nat)) (parse_string_body t') = Inr (k, r)"
              by (auto split: if_splits list.splits option.splits)
            from this(2) show ?thesis by (rule step) (simp add: Cons e t)
          qed
        qed
      qed
    qed
  qed
qed

text \<open>
  The object that \<^verbatim>\<open>JSON.parse\<close> builds from the members of an object text, in
  text order: each member is defined on the object so far (\<^verbatim>\<open>CreateDataProperty\<close>).
  A key that is already there keeps its place and takes the new value. The runtime
  enumerates the keys that are array indices (canonical decimal numerals below
  \<open>2\<^sup>3\<^sup>2 - 1\<close>) first, in ascending order, and the other keys after them, in the
  order of their creation.
\<close>

definition is_array_index :: "string \<Rightarrow> bool" where
  "is_array_index k =
     (k \<noteq> [] \<and> list_all is_digit k \<and> (k = ''0'' \<or> hd k \<noteq> CHR ''0'')
      \<and> fst (read_digits 0 k) < 4294967295)"

definition index_value :: "string \<Rightarrow> nat" where
  "index_value k = fst (read_digits 0 k)"

fun insert_index :: "string \<Rightarrow> json \<Rightarrow> (string \<times> json) list \<Rightarrow> (string \<times> json) list" where
  "insert_index k v [] = [(k, v)]"
| "insert_index k v ((k', v') # ms) =
     (if is_array_index k' \<and> index_value k' < index_value k
      then (k', v') # insert_index k v ms
      else (k, v) # (k', v') # ms)"

definition define_property ::
  "(string \<times> json) list \<Rightarrow> string \<times> json \<Rightarrow> (string \<times> json) list" where
  "define_property ms kv =
     (case kv of (k, v) \<Rightarrow>
        if k \<in> set (map fst ms) then map (\<lambda>(k', v'). if k' = k then (k', v) else (k', v')) ms
        else if is_array_index k then insert_index k v ms
        else ms @ [(k, v)])"

definition object_of_members :: "(string \<times> json) list \<Rightarrow> (string \<times> json) list" where
  "object_of_members ms = foldl define_property [] ms"

text \<open>
  A value, an array after its first bracket and an object after its first brace. The
  input of each function starts at a token (the white space before it is skipped by
  the caller); \<open>acc\<close> holds the elements or members read so far. The tests on the
  lengths are there for the termination proof only: a value that has been read has
  used up at least one character, so they never fail (lemmas
  \<open>parse_elements_without_test\<close> and \<open>parse_members_without_test\<close> below).
\<close>

function parse_value :: "string \<Rightarrow> parse_error + json \<times> string"
  and parse_elements :: "json list \<Rightarrow> string \<Rightarrow> parse_error + json list \<times> string"
  and parse_members ::
    "(string \<times> json) list \<Rightarrow> string \<Rightarrow> parse_error + (string \<times> json) list \<times> string"
where
  "parse_value s =
     (case s of
        [] \<Rightarrow> Inl SyntaxError
      | c # cs \<Rightarrow>
          if c = CHR ''{'' then
            (case skip_ws cs of
               [] \<Rightarrow> Inl SyntaxError
             | d # r \<Rightarrow>
                 if d = CHR ''}'' then Inr (JObj [], r)
                 else (case parse_members [] (d # r) of
                         Inl e \<Rightarrow> Inl e
                       | Inr (ms, r') \<Rightarrow> Inr (JObj (object_of_members ms), r')))
          else if c = CHR ''['' then
            (case skip_ws cs of
               [] \<Rightarrow> Inl SyntaxError
             | d # r \<Rightarrow>
                 if d = CHR '']'' then Inr (JArr [], r)
                 else (case parse_elements [] (d # r) of
                         Inl e \<Rightarrow> Inl e
                       | Inr (xs, r') \<Rightarrow> Inr (JArr xs, r')))
          else if c = CHR 0x22 then
            (case parse_string_body cs of
               Inl e \<Rightarrow> Inl e
             | Inr (str, r) \<Rightarrow> Inr (JStr str, r))
          else if c = CHR ''t'' then
            (if take 3 cs = ''rue'' then Inr (JBool True, drop 3 cs) else Inl SyntaxError)
          else if c = CHR ''f'' then
            (if take 4 cs = ''alse'' then Inr (JBool False, drop 4 cs) else Inl SyntaxError)
          else if c = CHR ''n'' then
            (if take 3 cs = ''ull'' then Inr (JNull, drop 3 cs) else Inl SyntaxError)
          else parse_number (c # cs))"
| "parse_elements acc s =
     (case parse_value s of
        Inl e \<Rightarrow> Inl e
      | Inr (v, r) \<Rightarrow>
          if length r < length s then
            (case skip_ws r of
               [] \<Rightarrow> Inl SyntaxError
             | d # r' \<Rightarrow>
                 if d = CHR '','' then parse_elements (acc @ [v]) (skip_ws r')
                 else if d = CHR '']'' then Inr (acc @ [v], r')
                 else Inl SyntaxError)
          else Inl SyntaxError)"
| "parse_members acc s =
     (case s of
        [] \<Rightarrow> Inl SyntaxError
      | q # cs \<Rightarrow>
          if q = CHR 0x22 then
            (case parse_string_body cs of
               Inl e \<Rightarrow> Inl e
             | Inr (k, r) \<Rightarrow>
                 (case skip_ws r of
                    [] \<Rightarrow> Inl SyntaxError
                  | d # r1 \<Rightarrow>
                      if d = CHR '':'' then
                        (case parse_value (skip_ws r1) of
                           Inl e \<Rightarrow> Inl e
                         | Inr (v, r2) \<Rightarrow>
                             if length r2 < length s then
                               (case skip_ws r2 of
                                  [] \<Rightarrow> Inl SyntaxError
                                | d' # r3 \<Rightarrow>
                                    if d' = CHR '','' then parse_members (acc @ [(k, v)]) (skip_ws r3)
                                    else if d' = CHR ''}'' then Inr (acc @ [(k, v)], r3)
                                    else Inl SyntaxError)
                             else Inl SyntaxError)
                      else Inl SyntaxError))
          else Inl SyntaxError)"
  by pat_completeness auto

text \<open>Every read uses up input, so the recursion ends.\<close>

termination
proof (relation "measure (\<lambda>x. case x of
            Inl s \<Rightarrow> 2 * length s
          | Inr (Inl (acc, s)) \<Rightarrow> 2 * length s + 1
          | Inr (Inr (acc, s)) \<Rightarrow> 2 * length s + 1)", goal_cases)
  case 1
  show ?case by simp
next
  case (2 s c cs d r)
  with length_skip_ws [of cs] show ?case by simp
next
  case (3 s c cs d r)
  with length_skip_ws [of cs] show ?case by simp
next
  case (4 acc s)
  show ?case by simp
next
  case (5 acc s b v r d r')
  from skip_ws_Cons [OF 5(4)] length_skip_ws [of r'] 5(3) show ?case by simp
next
  case (6 acc s q cs b k r d r1)
  from 6(3,4) have "parse_string_body cs = Inr (k, r)" by simp
  then have "length r < length cs" by (rule length_parse_string_body)
  with skip_ws_Cons [OF 6(5)] length_skip_ws [of r1] 6(1) show ?case by simp
next
  case (7 acc s q cs b k r d r1 b' v r2 d' r3)
  from skip_ws_Cons [OF 7(10)] length_skip_ws [of r3] 7(9) show ?case by simp
qed








section \<open>The tool catalog\<close>

datatype Tool = Tool (name: string) (description: string) (inputSchema: json)

text \<open>
  The entries of the \<^verbatim>\<open>tools\<close> array of the \<^verbatim>\<open>ListToolsRequestSchema\<close> handler,
  one definition per entry, in the order of the source. An input schema is the JSON
  object the source writes; \<^verbatim>\<open>get_new_releases\<close> is the one schema without a
  \<^verbatim>\<open>required\<close> member.
\<close>

definition tool_get_access_token :: Tool where
  "tool_get_access_token =
     Tool ''get_access_token''
       ''Get a valid Spotify access token for API requests''
       (JObj
        [(''type'', JStr ''object''),
         (''properties'', JObj []),
         (''required'', JArr [])])"

definition tool_search :: Tool where
  "tool_search =
     Tool ''search''
       ''Search for tracks, albums, artists, or playlists''
       (JObj
        [(''type'', JStr ''object''),
         (''properties'', JObj
          [(''query'', JObj
              [(''type'', JStr ''string''),
               (''description'', JStr ''Search query'')]),
           (''type'', JObj
              [(''type'', JStr ''string''),
               (''description'', JStr ''Type of item to search for''),
               (''enum'', JArr [JStr ''track'', JStr ''album'', JStr ''artist'', JStr ''playlist''])]),
           (''limit'', JObj
              [(''type'', JStr ''number''),
               (''description'', JStr ''Maximum number of results (1-50)''),
               (''minimum'', JNum 1),
               (''maximum'', JNum 50),
               (''default'', JNum 20)])]),
         (''required'', JArr [JStr ''query'', JStr ''type''])])"

definition tool_get_artist :: Tool where
  "tool_get_artist =
     Tool ''get_artist''
       ''Get Spotify catalog information for an artist''
       (JObj
        [(''type'', JStr ''object''),
         (''properties'', JObj
          [(''id'', JObj
              [(''type'', JStr ''string''),
               (''description'', JStr ''The Spotify ID or URI for the artist'')])]),
         (''required'', JArr [JStr ''id''])])"

definition tool_get_multiple_artists :: Tool where
  "tool_get_multiple_artists =
     Tool ''get_multiple_artists''
       ''Get Spotify catalog information for multiple artists''
       (JObj
        [(''type'', JStr ''object''),
         (''properties'', JObj
          [(''ids'', JObj
              [(''type'', JStr ''array''),
               (''items'', JObj [(''type'', JStr ''string'')]),
               (''description'', JStr ''Array of Spotify artist IDs or URIs (max 50)''),
               (''maxItems'', JNum 50)])]),
         (''required'', JArr [JStr ''ids''])])"

definition tool_get_artist_top_tracks :: Tool where
  "tool_get_artist_top_tracks =
     Tool ''get_artist_top_tracks''
       ''Get Spotify catalog information about an artist's top tracks''
       (JObj
        [(''type'', JStr ''object''),
         (''properties'', JObj
          [(''id'', JObj
              [(''type'', JStr ''string''),
               (''description'', JStr ''The Spotify ID or URI for the artist'')]),
           (''market'', JObj
              [(''type'', JStr ''string''),
               (''description'', JStr ''Optional. An ISO 3166-1 alpha-2 country code'')])]),
         (''required'', JArr [JStr ''id''])])"

definition tool_get_artist_related_artists :: Tool where
  "tool_get_artist_related_artists =
     Tool ''get_artist_related_artists''
       ''Get Spotify catalog information about artists similar to a given artist''
       (JObj
        [(''type'', JStr ''object''),
         (''properties'', JObj
          [(''id'', JObj
              [(''type'', JStr ''string''),
               (''description'', JStr ''The Spotify ID or URI for the artist'')])]),
         (''required'', JArr [JStr ''id''])])"

definition tool_get_artist_albums :: Tool where
  "tool_get_artist_albums =
     Tool ''get_artist_albums''
       ''Get Spotify catalog information about an artist's albums''
       (JObj
        [(''type'', JStr ''object''),
         (''properties'', JObj
          [(''id'', JObj
              [(''type'', JStr ''string''),
               (''description'', JStr ''The Spotify ID or URI for the artist'')]),
           (''include_groups'', JObj
              [(''type'', JStr ''array''),
               (''items'', JObj [(''type'', JStr ''string''), (''enum'', JArr [JStr ''album'', JStr ''single'', JStr ''appears_on'', JStr ''compilation''])]),
               (''description'', JStr ''Optional. Filter by album types'')]),
           (''limit'', JObj
              [(''type'', JStr ''number''),
               (''description'', JStr ''Maximum number of albums to return (1-50)''),
               (''minimum'', JNum 1),
               (''maximum'', JNum 50),
               (''default'', JNum 20)]),
           (''offset'', JObj
              [(''type'', JStr ''number''),
               (''description'', JStr ''The index of the first album to return''),
               (''minimum'', JNum 0),
               (''default'', JNum 0)])]),
         (''required'', JArr [JStr ''id''])])"

definition tool_get_album :: Tool where
  "tool_get_album =
     Tool ''get_album''
       ''Get Spotify catalog information for an album''
       (JObj
        [(''type'', JStr ''object''),
         (''properties'', JObj
          [(''id'', JObj
              [(''type'', JStr ''string''),
               (''description'', JStr ''The Spotify ID or URI for the album'')])]),
         (''required'', JArr [JStr ''id''])])"

definition tool_get_album_tracks :: Tool where
  "tool_get_album_tracks =
     Tool ''get_album_tracks''
       ''Get Spotify catalog information for an album's tracks''
       (JObj
        [(''type'', JStr ''object''),
         (''properties'', JObj
          [(''id'', JObj
              [(''type'', JStr ''string''),
               (''description'', JStr ''The Spotify ID or URI for the album'')]),
           (''limit'', JObj
              [(''type'', JStr ''number''),
               (''description'', JStr ''Maximum number of tracks to return (1-50)''),
               (''minimum'', JNum 1),
               (''maximum'', JNum 50),
               (''default'', JNum 20)]),
           (''offset'', JObj
              [(''type'', JStr ''number''),
               (''description'', JStr ''The index of the first track to return''),
               (''minimum'', JNum 0),
               (''default'', JNum 0)])]),
         (''required'', JArr [JStr ''id''])])"

definition tool_get_multiple_albums :: Tool where
  "tool_get_multiple_albums =
     Tool ''get_multiple_albums''
       ''Get Spotify catalog information for multiple albums''
       (JObj
        [(''type'', JStr ''object''),
         (''properties'', JObj
          [(''ids'', JObj
              [(''type'', JStr ''array''),
               (''items'', JObj [(''type'', JStr ''string'')]),
               (''description'', JStr ''Array of Spotify album IDs or URIs (max 20)''),
               (''maxItems'', JNum 20)])]),
         (''required'', JArr [JStr ''ids''])])"

definition tool_get_track :: Tool where
  "tool_get_track =
     Tool ''get_track''
       ''Get Spotify catalog information for a track''
       (JObj
        [(''type'', JStr ''object''),
         (''properties'', JObj
          [(''id'', JObj
              [(''type'', JStr ''string''),
               (''description'', JStr ''The Spotify ID or URI for the track'')])]),
         (''required'', JArr [JStr ''id''])])"

definition tool_get_available_genres :: Tool where
  "tool_get_available_genres =
     Tool ''get_available_genres''
       ''Get a list of available genre seeds for recommendations''
       (JObj
        [(''type'', JStr ''object''),
         (''properties'', JObj []),
         (''required'', JArr [])])"

definition tool_get_new_releases :: Tool where
  "tool_get_new_releases =
     Tool ''get_new_releases''
       ''Get a list of new album releases featured in Spotify''
       (JObj
        [(''type'', JStr ''object''),
         (''properties'', JObj
          [(''country'', JObj
              [(''type'', JStr ''string''),
               (''description'', JStr ''Optional. A country code (ISO 3166-1 alpha-2)'')]),
           (''limit'', JObj
              [(''type'', JStr ''number''),
               (''description'', JStr ''Maximum number of releases to return (1-50)''),
               (''minimum'', JNum 1),
               (''maximum'', JNum 50),
               (''default'', JNum 20)]),
           (''offset'', JObj
              [(''type'', JStr ''number''),
               (''description'', JStr ''The index of the first release to return''),
               (''minimum'', JNum 0),
               (''default'', JNum 0)])])])"

definition tool_get_recommendations :: Tool where
  "tool_get_recommendations =
     Tool ''get_recommendations''
       ''Get track recommendations based on seed tracks, artists, or genres''
       (JObj
        [(''type'', JStr ''object''),
         (''properties'', JObj
          [(''seed_tracks'', JObj
              [(''type'', JStr ''array''),
               (''items'', JObj [(''type'', JStr ''string'')]),
               (''description'', JStr ''Array of Spotify track IDs or URIs'')]),
           (''seed_artists'', JObj
              [(''type'', JStr ''array''),
               (''items'', JObj [(''type'', JStr ''string'')]),
               (''description'', JStr ''Array of Spotify artist IDs or URIs'')]),
           (''seed_genres'', JObj
              [(''type'', JStr ''array''),
               (''items'', JObj [(''type'', JStr ''string'')]),
               (''description'', JStr ''Array of genre names'')]),
           (''limit'', JObj
              [(''type'', JStr ''number''),
               (''description'', JStr ''Maximum number of recommendations (1-100)''),
               (''minimum'', JNum 1),
               (''maximum'', JNum 100),
               (''default'', JNum 20)])]),
         (''required'', JArr [])])"

definition tool_get_audiobook :: Tool where
  "tool_get_audiobook =
     Tool ''get_audiobook''
       ''Get Spotify catalog information for an audiobook''
       (JObj
        [(''type'', JStr ''object''),
         (''properties'', JObj
          [(''id'', JObj
              [(''type'', JStr ''string''),
               (''description'', JStr ''The Spotify ID or URI for the audiobook'')]),
           (''market'', JObj
              [(''type'', JStr ''string''),
               (''description'', JStr ''Optional. An ISO 3166-1 alpha-2 country code'')])]),
         (''required'', JArr [JStr ''id''])])"

text \<open>The reply to \<^verbatim>\<open>ListToolsRequestSchema\<close>: the \<^verbatim>\<open>tools\<close> array.\<close>

definition ListTools :: "Tool list" where
  "ListTools =
     [tool_get_access_token,
      tool_search,
      tool_get_artist,
      tool_get_multiple_artists,
      tool_get_artist_top_tracks,
      tool_get_artist_related_artists,
      tool_get_artist_albums,
      tool_get_album,
      tool_get_album_tracks,
      tool_get_multiple_albums,
      tool_get_track,
      tool_get_available_genres,
      tool_get_new_releases,
      tool_get_recommendations,
      tool_get_audiobook]"

text \<open>
  The \<^verbatim>\<open>required\<close> list a tool's schema declares (no list when the schema has no
  such member), and the \<^verbatim>\<open>maxItems\<close> bound it declares for a property.
\<close>

fun string_items :: "json list \<Rightarrow> string list" where
  "string_items [] = []"
| "string_items (JStr s # xs) = s # string_items xs"
| "string_items (_ # xs) = string_items xs"

definition member :: "json \<Rightarrow> string \<Rightarrow> json option" where
  "member v k = (case v of JObj ms \<Rightarrow> map_of ms k | _ \<Rightarrow> None)"

definition declared_required :: "Tool \<Rightarrow> string list" where
  "declared_required t =
     (case member (inputSchema t) ''required'' of
        Some (JArr xs) \<Rightarrow> string_items xs
      | _ \<Rightarrow> [])"


section \<open>The collaborators of the dispatcher\<close>

text \<open>
  The methods the dispatcher awaits: \<^verbatim>\<open>authManager.getAccessToken\<close> and the
  methods of the four resource handlers. Their classes are imported by
  \<^verbatim>\<open>index.ts\<close> from other modules, so each method is a parameter here: a function
  of the state of the world outside the dispatcher (type \<open>'w\<close>: the held token, the
  network, the upstream service) that either throws or returns a value, and leaves a
  new state.
\<close>

record ('v, 'w) handlers =
  getAccessToken :: "'w \<Rightarrow> (thrown + string) \<times> 'w"
  search :: "'v arguments \<Rightarrow> 'w \<Rightarrow> (thrown + json) \<times> 'w"
  getArtist :: "'v arguments \<Rightarrow> 'w \<Rightarrow> (thrown + json) \<times> 'w"
  getMultipleArtists :: "'v arguments \<Rightarrow> 'w \<Rightarrow> (thrown + json) \<times> 'w"
  getArtistTopTracks :: "'v arguments \<Rightarrow> 'w \<Rightarrow> (thrown + json) \<times> 'w"
  getArtistRelatedArtists :: "'v arguments \<Rightarrow> 'w \<Rightarrow> (thrown + json) \<times> 'w"
  getArtistAlbums :: "'v arguments \<Rightarrow> 'w \<Rightarrow> (thrown + json) \<times> 'w"
  getAlbum :: "'v arguments \<Rightarrow> 'w \<Rightarrow> (thrown + json) \<times> 'w"
  getAlbumTracks :: "'v arguments \<Rightarrow> 'w \<Rightarrow> (thrown + json) \<times> 'w"
  getMultipleAlbums :: "'v arguments \<Rightarrow> 'w \<Rightarrow> (thrown + json) \<times> 'w"
  getTrack :: "'v arguments \<Rightarrow> 'w \<Rightarrow> (thrown + json) \<times> 'w"
  getAvailableGenres :: "'w \<Rightarrow> (thrown + json) \<times> 'w"
  getNewReleases :: "'v arguments \<Rightarrow> 'w \<Rightarrow> (thrown + json) \<times> 'w"
  getRecommendations :: "'v arguments \<Rightarrow> 'w \<Rightarrow> (thrown + json) \<times> 'w"
  getAudiobook :: "'v arguments \<Rightarrow> 'w \<Rightarrow> (thrown + json) \<times> 'w"

text \<open>The methods that take the argument object, in the order of the switch.\<close>

definition argument_methods ::
  "('v, 'w) handlers \<Rightarrow> ('v arguments \<Rightarrow> 'w \<Rightarrow> (thrown + json) \<times> 'w) list" where
  "argument_methods h =
     [search h, getArtist h, getMultipleArtists h, getArtistTopTracks h,
      getArtistRelatedArtists h, getArtistAlbums h, getAlbum h, getAlbumTracks h,
      getMultipleAlbums h, getTrack h, getNewReleases h, getRecommendations h,
      getAudiobook h]"

section \<open>The tool-call dispatcher\<close>

text \<open>A tool result: \<^verbatim>\<open>{ content: [{ type: 'text', text: ... }] }\<close>.\<close>

datatype content_block = TextContent (block_text: string)

datatype CallToolResult = CallToolResult (content: "content_block list")

text \<open>
  \<^verbatim>\<open>const args = this.validateArgs(...); const result = await handler(args);
  return { content: [{ type: 'text', text: JSON.stringify(result, null, 2) }] }\<close>:
  the body shared by the cases of the switch that validate their arguments. A failed
  validation throws before the handler is called; an exception of the handler
  propagates.
\<close>

definition json_result :: "(thrown + json) \<times> 'w \<Rightarrow> (thrown + CallToolResult) \<times> 'w" where
  "json_result r =
     (case r of
        (Inl t, w') \<Rightarrow> (Inl t, w')
      | (Inr result, w') \<Rightarrow> (Inr (CallToolResult [TextContent (JSON_stringify result)]), w'))"

definition validated_call ::
  "'v arguments option \<Rightarrow> string list \<Rightarrow> ('v arguments \<Rightarrow> 'w \<Rightarrow> (thrown + json) \<times> 'w)
     \<Rightarrow> 'w \<Rightarrow> (thrown + CallToolResult) \<times> 'w" where
  "validated_call arguments requiredFields handler w =
     (case validateArgs arguments requiredFields of
        Inl e \<Rightarrow> (Inl (ThrownMcp e), w)
      | Inr args \<Rightarrow> json_result (handler args w))"

text \<open>\<^verbatim>\<open>request.params.arguments || {}\<close>: an object is truthy, \<^verbatim>\<open>undefined\<close> is not.\<close>

definition or_empty :: "'v arguments option \<Rightarrow> 'v arguments option" where
  "or_empty arguments = (case arguments of None \<Rightarrow> Some Map.empty | Some a \<Rightarrow> Some a)"

text \<open>The \<^verbatim>\<open>switch (request.params.name)\<close> inside the \<^verbatim>\<open>try\<close> block.\<close>

definition tool_switch ::
  "('v, 'w) handlers \<Rightarrow> string \<Rightarrow> 'v arguments option \<Rightarrow> 'w
     \<Rightarrow> (thrown + CallToolResult) \<times> 'w" where
  "tool_switch h tool arguments w =
     (if tool = ''get_access_token'' then
        (case getAccessToken h w of
           (Inl t, w') \<Rightarrow> (Inl t, w')
         | (Inr token, w') \<Rightarrow> (Inr (CallToolResult [TextContent token]), w'))
      else if tool = ''search'' then
        validated_call arguments [''query'', ''type''] (search h) w
      else if tool = ''get_artist'' then
        validated_call arguments [''id''] (getArtist h) w
      else if tool = ''get_multiple_artists'' then
        validated_call arguments [''ids''] (getMultipleArtists h) w
      else if tool = ''get_artist_top_tracks'' then
        validated_call arguments [''id''] (getArtistTopTracks h) w
      else if tool = ''get_artist_related_artists'' then
        validated_call arguments [''id''] (getArtistRelatedArtists h) w
      else if tool = ''get_artist_albums'' then
        validated_call arguments [''id''] (getArtistAlbums h) w
      else if tool = ''get_album'' then
        validated_call arguments [''id''] (getAlbum h) w
      else if tool = ''get_album_tracks'' then
        validated_call arguments [''id''] (getAlbumTracks h) w
      else if tool = ''get_multiple_albums'' then
        validated_call arguments [''ids''] (getMultipleAlbums h) w
      else if tool = ''get_track'' then
        validated_call arguments [''id''] (getTrack h) w
      else if tool = ''get_available_genres'' then
        json_result (getAvailableGenres h w)
      else if tool = ''get_new_releases'' then
        validated_call (or_empty arguments) [] (getNewReleases h) w
      else if tool = ''get_recommendations'' then
        validated_call (or_empty arguments) [] (getRecommendations h) w
      else if tool = ''get_audiobook'' then
        validated_call arguments [''id''] (getAudiobook h) w
      else (Inl (ThrownMcp (McpError MethodNotFound (''Unknown tool: '' @ tool))), w))"

text \<open>
  The \<^verbatim>\<open>catch (error)\<close> block: an \<^verbatim>\<open>McpError\<close> is thrown again as it is,
  anything else is replaced by an internal error that quotes it. When the conversion
  \<^verbatim>\<open>`${error}`\<close> of the quoted value throws, the \<^verbatim>\<open>new McpError\<close> is never
  built and what the conversion threw leaves the block.
\<close>

definition catch_block :: "(thrown + CallToolResult) \<times> 'w \<Rightarrow> (thrown + CallToolResult) \<times> 'w" where
  "catch_block r =
     (case r of
        (Inl (ThrownMcp e), w') \<Rightarrow> (Inl (ThrownMcp e), w')
      | (Inl (ThrownOther d), w') \<Rightarrow>
          (Inl (ThrownMcp (McpError InternalError (''Unexpected error: '' @ d))), w')
      | (Inl (ThrownUnprintable t), w') \<Rightarrow> (Inl t, w')
      | (Inr res, w') \<Rightarrow> (Inr res, w'))"

text \<open>
  The \<^verbatim>\<open>CallToolRequestSchema\<close> handler: \<open>tool\<close> is \<^verbatim>\<open>request.params.name\<close>,
  \<open>arguments\<close> is \<^verbatim>\<open>request.params.arguments\<close>. \<open>Inl\<close> is what the handler
  throws to the protocol layer.
\<close>

definition CallTool ::
  "('v, 'w) handlers \<Rightarrow> string \<Rightarrow> 'v arguments option \<Rightarrow> 'w
     \<Rightarrow> (thrown + CallToolResult) \<times> 'w" where
  "CallTool h tool arguments w = catch_block (tool_switch h tool arguments w)"

text \<open>
  The cases of the switch that validate an argument object and await a handler method
  with it. Each entry is the tool name, what the case does to
  \<^verbatim>\<open>request.params.arguments\<close> before validating (nothing, or \<^verbatim>\<open>|| {}\<close>), the
  list of required fields it gives to \<^verbatim>\<open>validateArgs\<close>, and the method it awaits.
\<close>

definition routes ::
  "('v, 'w) handlers
     \<Rightarrow> (string \<times> ('v arguments option \<Rightarrow> 'v arguments option) \<times> string list
          \<times> ('v arguments \<Rightarrow> 'w \<Rightarrow> (thrown + json) \<times> 'w)) list" where
  "routes h =
     [(''search'', (\<lambda>a. a), [''query'', ''type''], search h),
      (''get_artist'', (\<lambda>a. a), [''id''], getArtist h),
      (''get_multiple_artists'', (\<lambda>a. a), [''ids''], getMultipleArtists h),
      (''get_artist_top_tracks'', (\<lambda>a. a), [''id''], getArtistTopTracks h),
      (''get_artist_related_artists'', (\<lambda>a. a), [''id''], getArtistRelatedArtists h),
      (''get_artist_albums'', (\<lambda>a. a), [''id''], getArtistAlbums h),
      (''get_album'', (\<lambda>a. a), [''id''], getAlbum h),
      (''get_album_tracks'', (\<lambda>a. a), [''id''], getAlbumTracks h),
      (''get_multiple_albums'', (\<lambda>a. a), [''ids''], getMultipleAlbums h),
      (''get_track'', (\<lambda>a. a), [''id''], getTrack h),
      (''get_new_releases'', or_empty, [], getNewReleases h),
      (''get_recommendations'', or_empty, [], getRecommendations h),
      (''get_audiobook'', (\<lambda>a. a), [''id''], getAudiobook h)]"

section \<open>The Token Manager\<close>

text \<open>
  Modelled from the spec: the Token Manager (\<^verbatim>\<open>AuthManager\<close>, which \<^verbatim>\<open>index.ts\<close>
  imports from \<^verbatim>\<open>./utils/auth.js\<close>; that module is not among the source files).
  The spec, section 4.1: "if no token held, or held token's expiry (minus a safety
  margin, e.g. 60 seconds) has passed, perform a client-credentials token exchange
  against the authorization endpoint [...]; store the returned token and its computed
  expiry; return it. Otherwise return the held token without any network call." and
  "if the exchange fails [...] the call fails with an AuthenticationError carrying the
  upstream status/message; no retry is attempted at this layer."

  Instants are seconds as integers. An access token is a value, an expiry timestamp and
  a token type (spec, section 3). The authorization endpoint is a parameter: the
  outcome of an exchange requested at a given instant, which is a failure or a token
  with its declared lifetime in seconds.
\<close>

datatype AccessToken = AccessToken (token_value: string) (expiry: int) (token_type: string)

datatype TokenResponse =
  TokenResponse (access_token: string) (response_token_type: string) (expires_in: nat)

datatype AuthenticationError = AuthenticationError (description_of: string)

type_synonym authorization_endpoint = "int \<Rightarrow> AuthenticationError + TokenResponse"

definition safety_margin :: int where
  "safety_margin = 60"

text \<open>
  Modelled from the spec: one token exchange at instant \<open>now\<close>. The last component of
  the result counts the exchange calls made (one here, whether it fails or not); a
  failed exchange leaves the held token as it was.
\<close>

definition exchange_token ::
  "authorization_endpoint \<Rightarrow> int \<Rightarrow> AccessToken option
     \<Rightarrow> (AuthenticationError + AccessToken) \<times> AccessToken option \<times> nat" where
  "exchange_token endpoint now held =
     (case endpoint now of
        Inl err \<Rightarrow> (Inl err, held, 1)
      | Inr resp \<Rightarrow>
          (let t = AccessToken (access_token resp) (now + int (expires_in resp))
                     (response_token_type resp)
           in (Inr t, Some t, 1)))"

text \<open>
  Modelled from the spec: \<^verbatim>\<open>getValidToken\<close> at instant \<open>now\<close> with the held token
  \<open>held\<close>. The result is the outcome, the token held afterwards and the number of
  exchange calls made.
\<close>

definition getValidToken ::
  "authorization_endpoint \<Rightarrow> int \<Rightarrow> AccessToken option
     \<Rightarrow> (AuthenticationError + AccessToken) \<times> AccessToken option \<times> nat" where
  "getValidToken endpoint now held =
     (case held of
        None \<Rightarrow> exchange_token endpoint now held
      | Some t \<Rightarrow>
          (if expiry t - safety_margin \<le> now then exchange_token endpoint now held
           else (Inr t, held, 0)))"

text \<open>
  Modelled from the spec: the world of the Token Manager as the dispatcher's
  \<^verbatim>\<open>getAccessToken\<close> collaborator sees it: the clock, the held token and the number
  of exchange calls made so far. The method returns the value of the valid token; an
  authentication failure is thrown, and is not an \<^verbatim>\<open>McpError\<close>.
\<close>

record auth_world =
  clock :: int
  held_token :: "AccessToken option"
  exchanges :: nat

definition auth_getAccessToken ::
  "authorization_endpoint \<Rightarrow> 'a auth_world_scheme
     \<Rightarrow> (thrown + string) \<times> 'a auth_world_scheme" where
  "auth_getAccessToken endpoint w =
     (case getValidToken endpoint (clock w) (held_token w) of
        (Inl err, held', n) \<Rightarrow>
          (Inl (ThrownOther (description_of err)),
           w\<lparr>held_token := held', exchanges := exchanges w + n\<rparr>)
      | (Inr t, held', n) \<Rightarrow>
          (Inr (token_value t), w\<lparr>held_token := held', exchanges := exchanges w + n\<rparr>))"

section \<open>The API client and the resource handlers\<close>

text \<open>
  Modelled from the spec: the API client (\<^verbatim>\<open>SpotifyApi\<close>, imported from
  \<^verbatim>\<open>./utils/api.js\<close>) and the four resource handlers (imported from
  \<^verbatim>\<open>./handlers/\<close>); none of these modules is among the source files. The spec,
  section 4.2: "before every call, obtains a valid token from the Token Manager; issues
  an HTTP GET (or equivalent) with the token as a bearer credential in the request
  header; on non-2xx response, fails with an ApiError including the HTTP status and
  upstream error body; on success, returns the parsed JSON body unmodified". Section
  4.3: a handler method is "a pure mapping from validated tool arguments to one API
  Client call, returning its result unchanged. No business logic: no aggregation across
  calls, no filtering, no derived fields", and "handler methods propagate API Client
  and Token Manager errors unchanged; they introduce no new error kinds".

  A request names the operation (the fourteen of section 4.3) and carries the bearer
  token and the parameters. The spec does not say how a handler lays the tool arguments
  out in the request, so the parameters are the argument object as the handler received
  it. The upstream service is outside the system and a parameter here: its response to
  a request, an HTTP status and a parsed body.
\<close>

datatype operation =
  OpSearch | OpGetArtist | OpGetMultipleArtists | OpGetArtistTopTracks
  | OpGetArtistRelatedArtists | OpGetArtistAlbums | OpGetAlbum | OpGetAlbumTracks
  | OpGetMultipleAlbums | OpGetTrack | OpGetAvailableGenres | OpGetNewReleases
  | OpGetRecommendations | OpGetAudiobook

datatype request =
  Request (operation: operation) (bearer: string) (parameters: "json arguments")

datatype response = Response (status: nat) (body: json)

type_synonym upstream_service = "request \<Rightarrow> response"

datatype ApiError = ApiError (http_status: nat) (error_body: json)

text \<open>
  Modelled from the spec: the string form of a thrown \<^verbatim>\<open>ApiError\<close>, which includes
  the HTTP status and the upstream error body.
\<close>

definition ApiError_text :: "ApiError \<Rightarrow> string" where
  "ApiError_text err =
     ''ApiError: '' @ show_nat (http_status err) @ '' '' @ serialize [] (error_body err)"

text \<open>
  Modelled from the spec: the world of the API client is the world of the Token Manager
  together with the requests sent to the upstream service so far, oldest first.
\<close>

record api_world = auth_world +
  requests :: "request list"

text \<open>
  Modelled from the spec: one call of the API client. A failed token exchange is
  thrown as it is and no request is sent; otherwise one request is sent with the valid
  token, and its response is returned (a status from 200 to 299) or thrown as an
  \<^verbatim>\<open>ApiError\<close>. Neither thrown value is an \<^verbatim>\<open>McpError\<close>.
\<close>

definition api_call ::
  "authorization_endpoint \<Rightarrow> upstream_service \<Rightarrow> operation \<Rightarrow> json arguments
     \<Rightarrow> api_world \<Rightarrow> (thrown + json) \<times> api_world" where
  "api_call endpoint upstream op params w =
     (case getValidToken endpoint (clock w) (held_token w) of
        (Inl err, held', n) \<Rightarrow>
          (Inl (ThrownOther (description_of err)),
           w\<lparr>held_token := held', exchanges := exchanges w + n\<rparr>)
      | (Inr t, held', n) \<Rightarrow>
          (let req = Request op (token_value t) params;
               w' = w\<lparr>held_token := held', exchanges := exchanges w + n,
                       requests := requests w @ [req]\<rparr>
           in case upstream req of
                Response st b \<Rightarrow>
                  if 200 \<le> st \<and> st < 300 then (Inr b, w')
                  else (Inl (ThrownOther (ApiError_text (ApiError st b))), w')))"

text \<open>
  Modelled from the spec: the collaborators of the dispatcher. \<^verbatim>\<open>getAccessToken\<close>
  is the Token Manager's; every handler method is one call of the API client with the
  arguments it was given (the genres method takes none).
\<close>

definition spec_handlers ::
  "authorization_endpoint \<Rightarrow> upstream_service \<Rightarrow> (json, api_world) handlers" where
  "spec_handlers endpoint upstream =
     \<lparr> getAccessToken = auth_getAccessToken endpoint,
       search = api_call endpoint upstream OpSearch,
       getArtist = api_call endpoint upstream OpGetArtist,
       getMultipleArtists = api_call endpoint upstream OpGetMultipleArtists,
       getArtistTopTracks = api_call endpoint upstream OpGetArtistTopTracks,
       getArtistRelatedArtists = api_call endpoint upstream OpGetArtistRelatedArtists,
       getArtistAlbums = api_call endpoint upstream OpGetArtistAlbums,
       getAlbum = api_call endpoint upstream OpGetAlbum,
       getAlbumTracks = api_call endpoint upstream OpGetAlbumTracks,
       getMultipleAlbums = api_call endpoint upstream OpGetMultipleAlbums,
       getTrack = api_call endpoint upstream OpGetTrack,
       getAvailableGenres = api_call endpoint upstream OpGetAvailableGenres Map.empty,
       getNewReleases = api_call endpoint upstream OpGetNewReleases,
       getRecommendations = api_call endpoint upstream OpGetRecommendations,
       getAudiobook = api_call endpoint upstream OpGetAudiobook \<rparr>"

section \<open>Collaborators for concrete runs\<close>

text \<open>
  Handlers for evaluating the dispatcher on concrete calls. The state of the world is
  the number of handler calls made so far: every method adds one to it. A method with
  arguments returns \<open>reply args\<close>, so that a run shows what reached the handler; the
  genres method, which takes none, returns the reply to the empty object.
\<close>

definition counting_handlers :: "('v arguments \<Rightarrow> json) \<Rightarrow> ('v, nat) handlers" where
  "counting_handlers reply =
     \<lparr> getAccessToken = (\<lambda>w. (Inr ''token'', Suc w)),
       search = (\<lambda>args w. (Inr (reply args), Suc w)),
       getArtist = (\<lambda>args w. (Inr (reply args), Suc w)),
       getMultipleArtists = (\<lambda>args w. (Inr (reply args), Suc w)),
       getArtistTopTracks = (\<lambda>args w. (Inr (reply args), Suc w)),
       getArtistRelatedArtists = (\<lambda>args w. (Inr (reply args), Suc w)),
       getArtistAlbums = (\<lambda>args w. (Inr (reply args), Suc w)),
       getAlbum = (\<lambda>args w. (Inr (reply args), Suc w)),
       getAlbumTracks = (\<lambda>args w. (Inr (reply args), Suc w)),
       getMultipleAlbums = (\<lambda>args w. (Inr (reply args), Suc w)),
       getTrack = (\<lambda>args w. (Inr (reply args), Suc w)),
       getAvailableGenres = (\<lambda>w. (Inr (reply Map.empty), Suc w)),
       getNewReleases = (\<lambda>args w. (Inr (reply args), Suc w)),
       getRecommendations = (\<lambda>args w. (Inr (reply args), Suc w)),
       getAudiobook = (\<lambda>args w. (Inr (reply args), Suc w)) \<rparr>"

text \<open>The reply that echoes one field of the arguments (\<^verbatim>\<open>null\<close> when it is absent).\<close>

definition echo_field :: "string \<Rightarrow> json arguments \<Rightarrow> json" where
  "echo_field field args = (case args field of None \<Rightarrow> JNull | Some v \<Rightarrow> v)"



text \<open>Handlers of which every method throws the given value.\<close>

definition throwing_handlers :: "thrown \<Rightarrow> ('v, nat) handlers" where
  "throwing_handlers t =
     \<lparr> getAccessToken = (\<lambda>w. (Inl t, Suc w)),
       search = (\<lambda>args w. (Inl t, Suc w)),
       getArtist = (\<lambda>args w. (Inl t, Suc w)),
       getMultipleArtists = (\<lambda>args w. (Inl t, Suc w)),
       getArtistTopTracks = (\<lambda>args w. (Inl t, Suc w)),
       getArtistRelatedArtists = (\<lambda>args w. (Inl t, Suc w)),
       getArtistAlbums = (\<lambda>args w. (Inl t, Suc w)),
       getAlbum = (\<lambda>args w. (Inl t, Suc w)),
       getAlbumTracks = (\<lambda>args w. (Inl t, Suc w)),
       getMultipleAlbums = (\<lambda>args w. (Inl t, Suc w)),
       getTrack = (\<lambda>args w. (Inl t, Suc w)),
       getAvailableGenres = (\<lambda>w. (Inl t, Suc w)),
       getNewReleases = (\<lambda>args w. (Inl t, Suc w)),
       getRecommendations = (\<lambda>args w. (Inl t, Suc w)),
       getAudiobook = (\<lambda>args w. (Inl t, Suc w)) \<rparr>"

text \<open>
  Handlers over the world of the Token Manager: \<^verbatim>\<open>getAccessToken\<close> is the Token
  Manager's, every other method returns \<^verbatim>\<open>null\<close> and leaves the world as it is.
\<close>

definition token_manager_handlers :: "authorization_endpoint \<Rightarrow> ('v, auth_world) handlers" where
  "token_manager_handlers endpoint =
     \<lparr> getAccessToken = auth_getAccessToken endpoint,
       search = (\<lambda>args w. (Inr JNull, w)),
       getArtist = (\<lambda>args w. (Inr JNull, w)),
       getMultipleArtists = (\<lambda>args w. (Inr JNull, w)),
       getArtistTopTracks = (\<lambda>args w. (Inr JNull, w)),
       getArtistRelatedArtists = (\<lambda>args w. (Inr JNull, w)),
       getArtistAlbums = (\<lambda>args w. (Inr JNull, w)),
       getAlbum = (\<lambda>args w. (Inr JNull, w)),
       getAlbumTracks = (\<lambda>args w. (Inr JNull, w)),
       getMultipleAlbums = (\<lambda>args w. (Inr JNull, w)),
       getTrack = (\<lambda>args w. (Inr JNull, w)),
       getAvailableGenres = (\<lambda>w. (Inr JNull, w)),
       getNewReleases = (\<lambda>args w. (Inr JNull, w)),
       getRecommendations = (\<lambda>args w. (Inr JNull, w)),
       getAudiobook = (\<lambda>args w. (Inr JNull, w)) \<rparr>"

text \<open>An authorization endpoint that grants the same token for one hour at every request.\<close>

definition hourly_endpoint :: authorization_endpoint where
  "hourly_endpoint now = Inr (TokenResponse ''BQDfresh'' ''Bearer'' 3600)"


definition refusing_service :: upstream_service where
  "refusing_service req = Response 401 (JObj [(''error'', JStr ''invalid_token'')])"

section \<open>The catalog and the switch, case by case\<close>

lemmas tool_defs =
  tool_get_access_token_def tool_search_def tool_get_artist_def
  tool_get_multiple_artists_def tool_get_artist_top_tracks_def
  tool_get_artist_related_artists_def tool_get_artist_albums_def tool_get_album_def
  tool_get_album_tracks_def tool_get_multiple_albums_def tool_get_track_def
  tool_get_available_genres_def tool_get_new_releases_def tool_get_recommendations_def
  tool_get_audiobook_def

lemma catalog_names:
  "map name ListTools =
     [''get_access_token'', ''search'', ''get_artist'', ''get_multiple_artists'',
      ''get_artist_top_tracks'', ''get_artist_related_artists'', ''get_artist_albums'',
      ''get_album'', ''get_album_tracks'', ''get_multiple_albums'', ''get_track'',
      ''get_available_genres'', ''get_new_releases'', ''get_recommendations'',
      ''get_audiobook'']"
  by (simp add: ListTools_def tool_defs)

lemma catalog_required:
  "map (\<lambda>t. (name t, declared_required t)) ListTools =
     [(''get_access_token'', []), (''search'', [''query'', ''type'']), (''get_artist'', [''id'']), (''get_multiple_artists'', [''ids'']),
      (''get_artist_top_tracks'', [''id'']), (''get_artist_related_artists'', [''id'']), (''get_artist_albums'', [''id'']),
      (''get_album'', [''id'']), (''get_album_tracks'', [''id'']), (''get_multiple_albums'', [''ids'']), (''get_track'', [''id'']),
      (''get_available_genres'', []), (''get_new_releases'', []), (''get_recommendations'', []),
      (''get_audiobook'', [''id''])]"
  by (simp add: ListTools_def declared_required_def member_def tool_defs)

lemma switch_get_access_token:
  "tool_switch h ''get_access_token'' a w =
     (case getAccessToken h w of
        (Inl t, w') \<Rightarrow> (Inl t, w')
      | (Inr token, w') \<Rightarrow> (Inr (CallToolResult [TextContent token]), w'))"
  by (simp add: tool_switch_def)

lemma switch_search:
  "tool_switch h ''search'' a w = validated_call a [''query'', ''type''] (search h) w"
  by (simp add: tool_switch_def)

lemma switch_get_artist:
  "tool_switch h ''get_artist'' a w = validated_call a [''id''] (getArtist h) w"
  by (simp add: tool_switch_def)

lemma switch_get_multiple_artists:
  "tool_switch h ''get_multiple_artists'' a w = validated_call a [''ids''] (getMultipleArtists h) w"
  by (simp add: tool_switch_def)

lemma switch_get_artist_top_tracks:
  "tool_switch h ''get_artist_top_tracks'' a w = validated_call a [''id''] (getArtistTopTracks h) w"
  by (simp add: tool_switch_def)

lemma switch_get_artist_related_artists:
  "tool_switch h ''get_artist_related_artists'' a w =
     validated_call a [''id''] (getArtistRelatedArtists h) w"
  by (simp add: tool_switch_def)

lemma switch_get_artist_albums:
  "tool_switch h ''get_artist_albums'' a w = validated_call a [''id''] (getArtistAlbums h) w"
  by (simp add: tool_switch_def)

lemma switch_get_album:
  "tool_switch h ''get_album'' a w = validated_call a [''id''] (getAlbum h) w"
  by (simp add: tool_switch_def)

lemma switch_get_album_tracks:
  "tool_switch h ''get_album_tracks'' a w = validated_call a [''id''] (getAlbumTracks h) w"
  by (simp add: tool_switch_def)

lemma switch_get_multiple_albums:
  "tool_switch h ''get_multiple_albums'' a w = validated_call a [''ids''] (getMultipleAlbums h) w"
  by (simp add: tool_switch_def)

lemma switch_get_track:
  "tool_switch h ''get_track'' a w = validated_call a [''id''] (getTrack h) w"
  by (simp add: tool_switch_def)

lemma switch_get_available_genres:
  "tool_switch h ''get_available_genres'' a w = json_result (getAvailableGenres h w)"
  by (simp add: tool_switch_def)

lemma switch_get_new_releases:
  "tool_switch h ''get_new_releases'' a w = validated_call (or_empty a) [] (getNewReleases h) w"
  by (simp add: tool_switch_def)

lemma switch_get_recommendations:
  "tool_switch h ''get_recommendations'' a w =
     validated_call (or_empty a) [] (getRecommendations h) w"
  by (simp add: tool_switch_def)

lemma switch_get_audiobook:
  "tool_switch h ''get_audiobook'' a w = validated_call a [''id''] (getAudiobook h) w"
  by (simp add: tool_switch_def)

lemma switch_unknown:
  "tool \<notin> set (map name ListTools) \<Longrightarrow>
   tool_switch h tool a w = (Inl (ThrownMcp (McpError MethodNotFound (''Unknown tool: '' @ tool))), w)"
  unfolding catalog_names by (simp add: tool_switch_def)

lemmas switch_simps =
  switch_get_access_token switch_search switch_get_artist switch_get_multiple_artists
  switch_get_artist_top_tracks switch_get_artist_related_artists switch_get_artist_albums
  switch_get_album switch_get_album_tracks switch_get_multiple_albums switch_get_track
  switch_get_available_genres switch_get_new_releases switch_get_recommendations
  switch_get_audiobook

section \<open>Required-field validation\<close>

lemma check_required_present:
  "(\<forall>f \<in> set req. js_in f args) \<Longrightarrow> check_required args req = Inr args"
  by (induction req) simp_all

lemma check_required_absent:
  "f \<in> set req \<Longrightarrow> \<not> js_in f args \<Longrightarrow>
   \<exists>g \<in> set req. check_required args req = Inl (McpError InvalidParams (''Missing required field: '' @ g))"
  by (induction req) auto

lemma check_required_cases:
  "check_required args req = Inr args \<or>
   (\<exists>g \<in> set req. check_required args req = Inl (McpError InvalidParams (''Missing required field: '' @ g)))"
  by (induction req) auto


lemma own_property_in: "args f \<noteq> None \<Longrightarrow> js_in f args"
  by (simp add: js_in_def)

lemma required_not_inherited:
  "js_in ''query'' args = (args ''query'' \<noteq> None)"
  "js_in ''type'' args = (args ''type'' \<noteq> None)"
  "js_in ''id'' args = (args ''id'' \<noteq> None)"
  "js_in ''ids'' args = (args ''ids'' \<noteq> None)"
  by (simp_all add: js_in_def Object_prototype_properties_def)

lemma validated_call_rejects:
  assumes "arguments = None \<or> (\<exists>a f. arguments = Some a \<and> f \<in> set req \<and> \<not> js_in f a)"
  shows "\<exists>msg. (msg = ''Arguments are required'' \<or> (\<exists>f \<in> set req. msg = ''Missing required field: '' @ f))
           \<and> (\<forall>m w. catch_block (validated_call arguments req m w) = (Inl (ThrownMcp (McpError InvalidParams msg)), w))"
proof (cases arguments)
  case None
  then show ?thesis
    by (simp add: validated_call_def validateArgs_def catch_block_def)
next
  case (Some a)
  with assms obtain f where "f \<in> set req" "\<not> js_in f a" by auto
  from check_required_absent [OF this] obtain g where
    g: "g \<in> set req" "check_required a req = Inl (McpError InvalidParams (''Missing required field: '' @ g))"
    by blast
  have "\<forall>m w. catch_block (validated_call arguments req m w)
          = (Inl (ThrownMcp (McpError InvalidParams (''Missing required field: '' @ g))), w)"
    using g(2) Some by (simp add: validated_call_def validateArgs_def catch_block_def)
  with g(1) show ?thesis by blast
qed

lemma tool_names:
  "name tool_get_access_token = ''get_access_token''"
  "name tool_search = ''search''"
  "name tool_get_artist = ''get_artist''"
  "name tool_get_multiple_artists = ''get_multiple_artists''"
  "name tool_get_artist_top_tracks = ''get_artist_top_tracks''"
  "name tool_get_artist_related_artists = ''get_artist_related_artists''"
  "name tool_get_artist_albums = ''get_artist_albums''"
  "name tool_get_album = ''get_album''"
  "name tool_get_album_tracks = ''get_album_tracks''"
  "name tool_get_multiple_albums = ''get_multiple_albums''"
  "name tool_get_track = ''get_track''"
  "name tool_get_available_genres = ''get_available_genres''"
  "name tool_get_new_releases = ''get_new_releases''"
  "name tool_get_recommendations = ''get_recommendations''"
  "name tool_get_audiobook = ''get_audiobook''"
  by (simp_all add: tool_defs)

lemma tool_required:
  "declared_required tool_get_access_token = []"
  "declared_required tool_search = [''query'', ''type'']"
  "declared_required tool_get_artist = [''id'']"
  "declared_required tool_get_multiple_artists = [''ids'']"
  "declared_required tool_get_artist_top_tracks = [''id'']"
  "declared_required tool_get_artist_related_artists = [''id'']"
  "declared_required tool_get_artist_albums = [''id'']"
  "declared_required tool_get_album = [''id'']"
  "declared_required tool_get_album_tracks = [''id'']"
  "declared_required tool_get_multiple_albums = [''ids'']"
  "declared_required tool_get_track = [''id'']"
  "declared_required tool_get_available_genres = []"
  "declared_required tool_get_new_releases = []"
  "declared_required tool_get_recommendations = []"
  "declared_required tool_get_audiobook = [''id'']"
  by (simp_all add: tool_defs declared_required_def member_def)

lemma ListTools_cases:
  assumes "t \<in> set ListTools"
  obtains "t = tool_get_access_token" | "t = tool_search" | "t = tool_get_artist"
    | "t = tool_get_multiple_artists" | "t = tool_get_artist_top_tracks"
    | "t = tool_get_artist_related_artists" | "t = tool_get_artist_albums"
    | "t = tool_get_album" | "t = tool_get_album_tracks" | "t = tool_get_multiple_albums"
    | "t = tool_get_track" | "t = tool_get_available_genres" | "t = tool_get_new_releases"
    | "t = tool_get_recommendations" | "t = tool_get_audiobook"
  using assms unfolding ListTools_def by (simp only: list.set insert_iff empty_iff) blast

lemma required_field_missing:
  assumes "f \<in> {''query'', ''type'', ''id'', ''ids''}" and "a f = None"
  shows "\<not> js_in f a"
  using assms by (auto simp add: required_not_inherited)

text \<open>
  Claim C1. For every tool of the catalog whose schema lists required fields, a call
  without an argument object, or with an argument object that lacks one of the required
  fields, fails with an \<^verbatim>\<open>InvalidParams\<close> error. The error is the same for every
  choice of the collaborators and the state of the world is returned as it was: no
  handler method has run.
\<close>

theorem missing_required_field_rejected:
  assumes "t \<in> set ListTools" and "declared_required t \<noteq> []"
    and "arguments = None \<or>
         (\<exists>a f. arguments = Some a \<and> f \<in> set (declared_required t) \<and> a f = None)"
  shows "\<exists>msg. (msg = ''Arguments are required''
                 \<or> (\<exists>f \<in> set (declared_required t). msg = ''Missing required field: '' @ f))
           \<and> (\<forall>(h :: ('v, 'w) handlers) w.
                 CallTool h (name t) arguments w = (Inl (ThrownMcp (McpError InvalidParams msg)), w))"
proof -
  have rejected: ?thesis
    if sw: "\<forall>h a w. tool_switch h (name t) a w = validated_call a (declared_required t) (m h) w"
      and req: "set (declared_required t) \<subseteq> {''query'', ''type'', ''id'', ''ids''}"
    for m :: "('v, 'w) handlers \<Rightarrow> 'v arguments \<Rightarrow> 'w \<Rightarrow> (thrown + json) \<times> 'w"
  proof -
    have "arguments = None \<or>
      (\<exists>a f. arguments = Some a \<and> f \<in> set (declared_required t) \<and> \<not> js_in f a)"
    proof (cases arguments)
      case None
      then show ?thesis by simp
    next
      case (Some a)
      with assms(3) obtain f where f: "f \<in> set (declared_required t)" "a f = None" by auto
      with req have "f \<in> {''query'', ''type'', ''id'', ''ids''}" by blast
      then have "\<not> js_in f a" using f(2) by (rule required_field_missing)
      with f(1) Some show ?thesis by blast
    qed
    from validated_call_rejects [OF this] obtain msg where
      msg: "msg = ''Arguments are required''
            \<or> (\<exists>f \<in> set (declared_required t). msg = ''Missing required field: '' @ f)"
      and all: "\<forall>(m :: 'v arguments \<Rightarrow> 'w \<Rightarrow> (thrown + json) \<times> 'w) w.
                  catch_block (validated_call arguments (declared_required t) m w)
                  = (Inl (ThrownMcp (McpError InvalidParams msg)), w)"
      by blast
    from all sw have "\<forall>(h :: ('v, 'w) handlers) w.
        CallTool h (name t) arguments w = (Inl (ThrownMcp (McpError InvalidParams msg)), w)"
      by (simp add: CallTool_def)
    with msg show ?thesis by blast
  qed
  from assms(1) show ?thesis
  proof (cases rule: ListTools_cases)
    case 1
    with assms(2) show ?thesis by (simp add: tool_required)
  next
    case 2
    have "\<forall>h a w. tool_switch h (name t) a w
            = validated_call a (declared_required t) (search h) w"
      by (simp add: 2 tool_names tool_required switch_search)
    moreover have "set (declared_required t) \<subseteq> {''query'', ''type'', ''id'', ''ids''}"
      by (simp add: 2 tool_required)
    ultimately show ?thesis by (rule rejected)
  next
    case 3
    have "\<forall>h a w. tool_switch h (name t) a w
            = validated_call a (declared_required t) (getArtist h) w"
      by (simp add: 3 tool_names tool_required switch_get_artist)
    moreover have "set (declared_required t) \<subseteq> {''query'', ''type'', ''id'', ''ids''}"
      by (simp add: 3 tool_required)
    ultimately show ?thesis by (rule rejected)
  next
    case 4
    have "\<forall>h a w. tool_switch h (name t) a w
            = validated_call a (declared_required t) (getMultipleArtists h) w"
      by (simp add: 4 tool_names tool_required switch_get_multiple_artists)
    moreover have "set (declared_required t) \<subseteq> {''query'', ''type'', ''id'', ''ids''}"
      by (simp add: 4 tool_required)
    ultimately show ?thesis by (rule rejected)
  next
    case 5
    have "\<forall>h a w. tool_switch h (name t) a w
            = validated_call a (declared_required t) (getArtistTopTracks h) w"
      by (simp add: 5 tool_names tool_required switch_get_artist_top_tracks)
    moreover have "set (declared_required t) \<subseteq> {''query'', ''type'', ''id'', ''ids''}"
      by (simp add: 5 tool_required)
    ultimately show ?thesis by (rule rejected)
  next
    case 6
    have "\<forall>h a w. tool_switch h (name t) a w
            = validated_call a (declared_required t) (getArtistRelatedArtists h) w"
      by (simp add: 6 tool_names tool_required switch_get_artist_related_artists)
    moreover have "set (declared_required t) \<subseteq> {''query'', ''type'', ''id'', ''ids''}"
      by (simp add: 6 tool_required)
    ultimately show ?thesis by (rule rejected)
  next
    case 7
    have "\<forall>h a w. tool_switch h (name t) a w
            = validated_call a (declared_required t) (getArtistAlbums h) w"
      by (simp add: 7 tool_names tool_required switch_get_artist_albums)
    moreover have "set (declared_required t) \<subseteq> {''query'', ''type'', ''id'', ''ids''}"
      by (simp add: 7 tool_required)
    ultimately show ?thesis by (rule rejected)
  next
    case 8
    have "\<forall>h a w. tool_switch h (name t) a w
            = validated_call a (declared_required t) (getAlbum h) w"
      by (simp add: 8 tool_names tool_required switch_get_album)
    moreover have "set (declared_required t) \<subseteq> {''query'', ''type'', ''id'', ''ids''}"
      by (simp add: 8 tool_required)
    ultimately show ?thesis by (rule rejected)
  next
    case 9
    have "\<forall>h a w. tool_switch h (name t) a w
            = validated_call a (declared_required t) (getAlbumTracks h) w"
      by (simp add: 9 tool_names tool_required switch_get_album_tracks)
    moreover have "set (declared_required t) \<subseteq> {''query'', ''type'', ''id'', ''ids''}"
      by (simp add: 9 tool_required)
    ultimately show ?thesis by (rule rejected)
  next
    case 10
    have "\<forall>h a w. tool_switch h (name t) a w
            = validated_call a (declared_required t) (getMultipleAlbums h) w"
      by (simp add: 10 tool_names tool_required switch_get_multiple_albums)
    moreover have "set (declared_required t) \<subseteq> {''query'', ''type'', ''id'', ''ids''}"
      by (simp add: 10 tool_required)
    ultimately show ?thesis by (rule rejected)
  next
    case 11
    have "\<forall>h a w. tool_switch h (name t) a w
            = validated_call a (declared_required t) (getTrack h) w"
      by (simp add: 11 tool_names tool_required switch_get_track)
    moreover have "set (declared_required t) \<subseteq> {''query'', ''type'', ''id'', ''ids''}"
      by (simp add: 11 tool_required)
    ultimately show ?thesis by (rule rejected)
  next
    case 12
    with assms(2) show ?thesis by (simp add: tool_required)
  next
    case 13
    with assms(2) show ?thesis by (simp add: tool_required)
  next
    case 14
    with assms(2) show ?thesis by (simp add: tool_required)
  next
    case 15
    have "\<forall>h a w. tool_switch h (name t) a w
            = validated_call a (declared_required t) (getAudiobook h) w"
      by (simp add: 15 tool_names tool_required switch_get_audiobook)
    moreover have "set (declared_required t) \<subseteq> {''query'', ''type'', ''id'', ''ids''}"
      by (simp add: 15 tool_required)
    ultimately show ?thesis by (rule rejected)
  qed
qed


theorem missing_required_field_rejected_witness:
  "tool_search \<in> set ListTools \<and> declared_required tool_search \<noteq> []
   \<and> (Map.empty(''query'' \<mapsto> JStr ''hello'')) ''type'' = None
   \<and> ''type'' \<in> set (declared_required tool_search)
   \<and> (\<exists>msg. CallTool (counting_handlers (echo_field ''query'')) (name tool_search)
                (Some (Map.empty(''query'' \<mapsto> JStr ''hello''))) 0
              = (Inl (ThrownMcp (McpError InvalidParams msg)), 0))"
proof -
  have 1: "tool_search \<in> set ListTools" by (simp add: ListTools_def)
  have 2: "declared_required tool_search \<noteq> []" by (simp add: tool_required)
  have 3: "(Map.empty(''query'' \<mapsto> JStr ''hello'')) ''type'' = None" by simp
  have 4: "''type'' \<in> set (declared_required tool_search)" by (simp add: tool_required)
  have "Some (Map.empty(''query'' \<mapsto> JStr ''hello'')) = None \<or>
        (\<exists>a f. Some (Map.empty(''query'' \<mapsto> JStr ''hello'')) = Some a
               \<and> f \<in> set (declared_required tool_search) \<and> a f = None)"
    using 3 4 by blast
  from missing_required_field_rejected [where 'w = nat, OF 1 2 this] 1 2 3 4
  show ?thesis by blast
qed

text \<open>
  Claim C4. A call of a tool name that the catalog does not declare fails with a
  \<^verbatim>\<open>MethodNotFound\<close> error (not an internal error), whatever the arguments, and no
  handler method runs.
\<close>

theorem unknown_tool_method_not_found:
  assumes "tool \<notin> set (map name ListTools)"
  shows "CallTool h tool arguments w
         = (Inl (ThrownMcp (McpError MethodNotFound (''Unknown tool: '' @ tool))), w)"
  using assms by (simp add: CallTool_def switch_unknown catch_block_def)

theorem unknown_tool_method_not_found_witness:
  "''frobnicate'' \<notin> set (map name ListTools)
   \<and> CallTool (counting_handlers (echo_field ''id'')) ''frobnicate'' None 0
       = (Inl (ThrownMcp (McpError MethodNotFound ''Unknown tool: frobnicate'')), 0)"
proof -
  have 1: "''frobnicate'' \<notin> set (map name ListTools)"
    unfolding catalog_names by simp
  from unknown_tool_method_not_found [OF 1] 1 show ?thesis by simp
qed

section \<open>What the switch can throw\<close>

lemma json_result_thrown: "json_result r = (Inl t, w') \<Longrightarrow> r = (Inl t, w')"
  by (auto simp add: json_result_def split: prod.splits sum.splits)

lemma validated_call_present:
  assumes "\<forall>f \<in> set req. args f \<noteq> None"
  shows "validated_call (Some args) req m w = json_result (m args w)"
proof -
  from assms have "\<forall>f \<in> set req. js_in f args" by (simp add: own_property_in)
  then have "check_required args req = Inr args" by (rule check_required_present)
  then show ?thesis by (simp add: validated_call_def validateArgs_def)
qed

lemma check_required_error:
  "check_required args req = Inl err \<Longrightarrow> code err = InvalidParams"
  by (induction req) (auto split: if_splits)

lemma validateArgs_error:
  "validateArgs arguments req = Inl err \<Longrightarrow> code err = InvalidParams"
  by (cases arguments) (auto simp add: validateArgs_def dest: check_required_error)

lemma validated_call_thrown:
  assumes "validated_call arguments req m w = (Inl t, w')"
  shows "(\<exists>e. t = ThrownMcp e \<and> code e = InvalidParams \<and> w' = w)
         \<or> (\<exists>a. validateArgs arguments req = Inr a \<and> m a w = (Inl t, w'))"
proof (cases "validateArgs arguments req")
  case (Inl err)
  then have "code err = InvalidParams" by (rule validateArgs_error)
  with Inl assms show ?thesis by (auto simp add: validated_call_def)
next
  case (Inr a)
  with assms have "json_result (m a w) = (Inl t, w')"
    by (simp add: validated_call_def)
  then have "m a w = (Inl t, w')" by (rule json_result_thrown)
  with Inr show ?thesis by blast
qed

lemma known_tool_cases:
  assumes "tool \<in> set (map name ListTools)"
  obtains "tool = ''get_access_token''" | "tool = ''search''" | "tool = ''get_artist''" | "tool = ''get_multiple_artists''" | "tool = ''get_artist_top_tracks''" | "tool = ''get_artist_related_artists''" | "tool = ''get_artist_albums''" | "tool = ''get_album''" | "tool = ''get_album_tracks''" | "tool = ''get_multiple_albums''" | "tool = ''get_track''" | "tool = ''get_available_genres''" | "tool = ''get_new_releases''" | "tool = ''get_recommendations''" | "tool = ''get_audiobook''"
  using assms unfolding catalog_names
  by (simp only: list.set insert_iff empty_iff) (elim disjE FalseE; simp)

lemma argument_methods_member:
  "search h \<in> set (argument_methods h)"
  "getArtist h \<in> set (argument_methods h)"
  "getMultipleArtists h \<in> set (argument_methods h)"
  "getArtistTopTracks h \<in> set (argument_methods h)"
  "getArtistRelatedArtists h \<in> set (argument_methods h)"
  "getArtistAlbums h \<in> set (argument_methods h)"
  "getAlbum h \<in> set (argument_methods h)"
  "getAlbumTracks h \<in> set (argument_methods h)"
  "getMultipleAlbums h \<in> set (argument_methods h)"
  "getTrack h \<in> set (argument_methods h)"
  "getNewReleases h \<in> set (argument_methods h)"
  "getRecommendations h \<in> set (argument_methods h)"
  "getAudiobook h \<in> set (argument_methods h)"
  by (simp_all add: argument_methods_def)

lemma routes_member:
  "(''search'', (\<lambda>a. a), [''query'', ''type''], search h) \<in> set (routes h)"
  "(''get_artist'', (\<lambda>a. a), [''id''], getArtist h) \<in> set (routes h)"
  "(''get_multiple_artists'', (\<lambda>a. a), [''ids''], getMultipleArtists h) \<in> set (routes h)"
  "(''get_artist_top_tracks'', (\<lambda>a. a), [''id''], getArtistTopTracks h) \<in> set (routes h)"
  "(''get_artist_related_artists'', (\<lambda>a. a), [''id''], getArtistRelatedArtists h) \<in> set (routes h)"
  "(''get_artist_albums'', (\<lambda>a. a), [''id''], getArtistAlbums h) \<in> set (routes h)"
  "(''get_album'', (\<lambda>a. a), [''id''], getAlbum h) \<in> set (routes h)"
  "(''get_album_tracks'', (\<lambda>a. a), [''id''], getAlbumTracks h) \<in> set (routes h)"
  "(''get_multiple_albums'', (\<lambda>a. a), [''ids''], getMultipleAlbums h) \<in> set (routes h)"
  "(''get_track'', (\<lambda>a. a), [''id''], getTrack h) \<in> set (routes h)"
  "(''get_new_releases'', or_empty, [], getNewReleases h) \<in> set (routes h)"
  "(''get_recommendations'', or_empty, [], getRecommendations h) \<in> set (routes h)"
  "(''get_audiobook'', (\<lambda>a. a), [''id''], getAudiobook h) \<in> set (routes h)"
  by (simp_all add: routes_def)

lemma routes_cases:
  assumes "(tool, prepare, req, m) \<in> set (routes h)"
  obtains "tool = ''search''" "prepare = (\<lambda>a. a)" "req = [''query'', ''type'']" "m = search h"
  | "tool = ''get_artist''" "prepare = (\<lambda>a. a)" "req = [''id'']" "m = getArtist h"
  | "tool = ''get_multiple_artists''" "prepare = (\<lambda>a. a)" "req = [''ids'']" "m = getMultipleArtists h"
  | "tool = ''get_artist_top_tracks''" "prepare = (\<lambda>a. a)" "req = [''id'']" "m = getArtistTopTracks h"
  | "tool = ''get_artist_related_artists''" "prepare = (\<lambda>a. a)" "req = [''id'']" "m = getArtistRelatedArtists h"
  | "tool = ''get_artist_albums''" "prepare = (\<lambda>a. a)" "req = [''id'']" "m = getArtistAlbums h"
  | "tool = ''get_album''" "prepare = (\<lambda>a. a)" "req = [''id'']" "m = getAlbum h"
  | "tool = ''get_album_tracks''" "prepare = (\<lambda>a. a)" "req = [''id'']" "m = getAlbumTracks h"
  | "tool = ''get_multiple_albums''" "prepare = (\<lambda>a. a)" "req = [''ids'']" "m = getMultipleAlbums h"
  | "tool = ''get_track''" "prepare = (\<lambda>a. a)" "req = [''id'']" "m = getTrack h"
  | "tool = ''get_new_releases''" "prepare = or_empty" "req = []" "m = getNewReleases h"
  | "tool = ''get_recommendations''" "prepare = or_empty" "req = []" "m = getRecommendations h"
  | "tool = ''get_audiobook''" "prepare = (\<lambda>a. a)" "req = [''id'']" "m = getAudiobook h"
  using assms unfolding routes_def
  by (simp only: list.set insert_iff empty_iff prod.inject) (elim disjE conjE FalseE; simp)

text \<open>
  The case of a route validates the prepared arguments against the list of the route
  and awaits the method of the route with the validated object.
\<close>

lemma routes_switch:
  assumes "(tool, prepare, req, m) \<in> set (routes h)"
  shows "tool_switch h tool arguments w = validated_call (prepare arguments) req m w"
  using assms by (cases rule: routes_cases) (simp_all add: switch_simps)

lemma switch_thrown:
  assumes "tool_switch h tool arguments w = (Inl t, w')"
  shows "(\<exists>e. t = ThrownMcp e \<and> code e = InvalidParams \<and> w' = w)
         \<or> (\<exists>e. t = ThrownMcp e \<and> code e = MethodNotFound \<and> w' = w)
         \<or> getAccessToken h w = (Inl t, w')
         \<or> getAvailableGenres h w = (Inl t, w')
         \<or> (\<exists>(tool', prepare, req, m) \<in> set (routes h).
               tool' = tool \<and> (\<exists>a. validateArgs (prepare arguments) req = Inr a
                                    \<and> m a w = (Inl t, w')))"
proof (cases "tool \<in> set (map name ListTools)")
  case False
  with assms show ?thesis by (auto simp add: switch_unknown)
next
  case True
  have via: ?thesis if "(tool, prepare, req, m) \<in> set (routes h)" for prepare req m
  proof -
    from routes_switch [OF that] assms
    have "validated_call (prepare arguments) req m w = (Inl t, w')" by simp
    from validated_call_thrown [OF this] that show ?thesis by blast
  qed
  from True show ?thesis
  proof (cases rule: known_tool_cases)
    case 1
    with assms have "getAccessToken h w = (Inl t, w')"
      by (auto simp add: switch_get_access_token split: prod.splits sum.splits)
    then show ?thesis by simp
  next
    case 2
    have "(tool, (\<lambda>a. a), [''query'', ''type''], search h) \<in> set (routes h)"
      by (simp add: 2 routes_member)
    then show ?thesis by (rule via)
  next
    case 3
    have "(tool, (\<lambda>a. a), [''id''], getArtist h) \<in> set (routes h)"
      by (simp add: 3 routes_member)
    then show ?thesis by (rule via)
  next
    case 4
    have "(tool, (\<lambda>a. a), [''ids''], getMultipleArtists h) \<in> set (routes h)"
      by (simp add: 4 routes_member)
    then show ?thesis by (rule via)
  next
    case 5
    have "(tool, (\<lambda>a. a), [''id''], getArtistTopTracks h) \<in> set (routes h)"
      by (simp add: 5 routes_member)
    then show ?thesis by (rule via)
  next
    case 6
    have "(tool, (\<lambda>a. a), [''id''], getArtistRelatedArtists h) \<in> set (routes h)"
      by (simp add: 6 routes_member)
    then show ?thesis by (rule via)
  next
    case 7
    have "(tool, (\<lambda>a. a), [''id''], getArtistAlbums h) \<in> set (routes h)"
      by (simp add: 7 routes_member)
    then show ?thesis by (rule via)
  next
    case 8
    have "(tool, (\<lambda>a. a), [''id''], getAlbum h) \<in> set (routes h)"
      by (simp add: 8 routes_member)
    then show ?thesis by (rule via)
  next
    case 9
    have "(tool, (\<lambda>a. a), [''id''], getAlbumTracks h) \<in> set (routes h)"
      by (simp add: 9 routes_member)
    then show ?thesis by (rule via)
  next
    case 10
    have "(tool, (\<lambda>a. a), [''ids''], getMultipleAlbums h) \<in> set (routes h)"
      by (simp add: 10 routes_member)
    then show ?thesis by (rule via)
  next
    case 11
    have "(tool, (\<lambda>a. a), [''id''], getTrack h) \<in> set (routes h)"
      by (simp add: 11 routes_member)
    then show ?thesis by (rule via)
  next
    case 12
    with assms have "json_result (getAvailableGenres h w) = (Inl t, w')"
      by (simp add: switch_get_available_genres)
    then have "getAvailableGenres h w = (Inl t, w')" by (rule json_result_thrown)
    then show ?thesis by simp
  next
    case 13
    have "(tool, or_empty, [], getNewReleases h) \<in> set (routes h)"
      by (simp add: 13 routes_member)
    then show ?thesis by (rule via)
  next
    case 14
    have "(tool, or_empty, [], getRecommendations h) \<in> set (routes h)"
      by (simp add: 14 routes_member)
    then show ?thesis by (rule via)
  next
    case 15
    have "(tool, (\<lambda>a. a), [''id''], getAudiobook h) \<in> set (routes h)"
      by (simp add: 15 routes_member)
    then show ?thesis by (rule via)
  qed
qed

section \<open>Presence is all that validation checks\<close>

text \<open>
  Claim C7. Required-field validation looks at the presence of keys only. For every
  argument object that has all the required keys, whatever the values are (the type of
  the values is arbitrary), \<^verbatim>\<open>validateArgs\<close> returns the object unchanged; and for
  every tool of the catalog that takes arguments, a call with such an object reaches a
  handler method with that very object, so a malformed value is not stopped before the
  handler.
\<close>

theorem present_fields_pass_validation:
  assumes present: "\<forall>f \<in> set requiredFields. args f \<noteq> None"
  shows "validateArgs (Some args) requiredFields = Inr args
         \<and> (t \<in> set ListTools \<and> declared_required t = requiredFields
              \<and> name t \<noteq> ''get_access_token'' \<and> name t \<noteq> ''get_available_genres''
            \<longrightarrow> (\<exists>m \<in> set (argument_methods (h :: ('v, 'w) handlers)).
                   CallTool h (name t) (Some args) w = catch_block (json_result (m args w))))"
proof (intro conjI impI)
  from present have "\<forall>f \<in> set requiredFields. js_in f args" by (simp add: own_property_in)
  then show "validateArgs (Some args) requiredFields = Inr args"
    by (simp add: validateArgs_def check_required_present)
next
  assume t: "t \<in> set ListTools \<and> declared_required t = requiredFields
     \<and> name t \<noteq> ''get_access_token'' \<and> name t \<noteq> ''get_available_genres''"
  then have "t \<in> set ListTools" and req: "declared_required t = requiredFields"
    and no: "name t \<noteq> ''get_access_token''" "name t \<noteq> ''get_available_genres''"
    by simp_all
  have present: "validated_call (Some args) (declared_required t) m w = json_result (m args w)"
    for m :: "'v arguments \<Rightarrow> 'w \<Rightarrow> (thrown + json) \<times> 'w"
    using present unfolding req by (rule validated_call_present)
  from \<open>t \<in> set ListTools\<close>
  show "\<exists>m \<in> set (argument_methods h).
          CallTool h (name t) (Some args) w = catch_block (json_result (m args w))"
  proof (cases rule: ListTools_cases)
    case 1
    with no show ?thesis by (simp add: tool_names)
  next
    case 2
    have "CallTool h (name t) (Some args) w = catch_block (json_result (search h args w))"
      unfolding CallTool_def present [symmetric]
      by (simp add: 2 tool_names tool_required switch_search or_empty_def)
    with argument_methods_member(1) show ?thesis by blast
  next
    case 3
    have "CallTool h (name t) (Some args) w = catch_block (json_result (getArtist h args w))"
      unfolding CallTool_def present [symmetric]
      by (simp add: 3 tool_names tool_required switch_get_artist or_empty_def)
    with argument_methods_member(2) show ?thesis by blast
  next
    case 4
    have "CallTool h (name t) (Some args) w = catch_block (json_result (getMultipleArtists h args w))"
      unfolding CallTool_def present [symmetric]
      by (simp add: 4 tool_names tool_required switch_get_multiple_artists or_empty_def)
    with argument_methods_member(3) show ?thesis by blast
  next
    case 5
    have "CallTool h (name t) (Some args) w = catch_block (json_result (getArtistTopTracks h args w))"
      unfolding CallTool_def present [symmetric]
      by (simp add: 5 tool_names tool_required switch_get_artist_top_tracks or_empty_def)
    with argument_methods_member(4) show ?thesis by blast
  next
    case 6
    have "CallTool h (name t) (Some args) w = catch_block (json_result (getArtistRelatedArtists h args w))"
      unfolding CallTool_def present [symmetric]
      by (simp add: 6 tool_names tool_required switch_get_artist_related_artists or_empty_def)
    with argument_methods_member(5) show ?thesis by blast
  next
    case 7
    have "CallTool h (name t) (Some args) w = catch_block (json_result (getArtistAlbums h args w))"
      unfolding CallTool_def present [symmetric]
      by (simp add: 7 tool_names tool_required switch_get_artist_albums or_empty_def)
    with argument_methods_member(6) show ?thesis by blast
  next
    case 8
    have "CallTool h (name t) (Some args) w = catch_block (json_result (getAlbum h args w))"
      unfolding CallTool_def present [symmetric]
      by (simp add: 8 tool_names tool_required switch_get_album or_empty_def)
    with argument_methods_member(7) show ?thesis by blast
  next
    case 9
    have "CallTool h (name t) (Some args) w = catch_block (json_result (getAlbumTracks h args w))"
      unfolding CallTool_def present [symmetric]
      by (simp add: 9 tool_names tool_required switch_get_album_tracks or_empty_def)
    with argument_methods_member(8) show ?thesis by blast
  next
    case 10
    have "CallTool h (name t) (Some args) w = catch_block (json_result (getMultipleAlbums h args w))"
      unfolding CallTool_def present [symmetric]
      by (simp add: 10 tool_names tool_required switch_get_multiple_albums or_empty_def)
    with argument_methods_member(9) show ?thesis by blast
  next
    case 11
    have "CallTool h (name t) (Some args) w = catch_block (json_result (getTrack h args w))"
      unfolding CallTool_def present [symmetric]
      by (simp add: 11 tool_names tool_required switch_get_track or_empty_def)
    with argument_methods_member(10) show ?thesis by blast
  next
    case 12
    with no show ?thesis by (simp add: tool_names)
  next
    case 13
    have "CallTool h (name t) (Some args) w = catch_block (json_result (getNewReleases h args w))"
      unfolding CallTool_def present [symmetric]
      by (simp add: 13 tool_names tool_required switch_get_new_releases or_empty_def)
    with argument_methods_member(11) show ?thesis by blast
  next
    case 14
    have "CallTool h (name t) (Some args) w = catch_block (json_result (getRecommendations h args w))"
      unfolding CallTool_def present [symmetric]
      by (simp add: 14 tool_names tool_required switch_get_recommendations or_empty_def)
    with argument_methods_member(12) show ?thesis by blast
  next
    case 15
    have "CallTool h (name t) (Some args) w = catch_block (json_result (getAudiobook h args w))"
      unfolding CallTool_def present [symmetric]
      by (simp add: 15 tool_names tool_required switch_get_audiobook or_empty_def)
    with argument_methods_member(13) show ?thesis by blast
  qed
qed


theorem present_fields_pass_validation_witness:
  "(Map.empty(''query'' \<mapsto> JStr ''abba'', ''type'' \<mapsto> JStr ''track'',
               ''limit'' \<mapsto> JStr ''banana'')) ''query'' \<noteq> None
   \<and> (Map.empty(''query'' \<mapsto> JStr ''abba'', ''type'' \<mapsto> JStr ''track'',
               ''limit'' \<mapsto> JStr ''banana'')) ''type'' \<noteq> None
   \<and> validateArgs
        (Some (Map.empty(''query'' \<mapsto> JStr ''abba'', ''type'' \<mapsto> JStr ''track'',
                         ''limit'' \<mapsto> JStr ''banana'')))
        [''query'', ''type'']
       = Inr (Map.empty(''query'' \<mapsto> JStr ''abba'', ''type'' \<mapsto> JStr ''track'',
                        ''limit'' \<mapsto> JStr ''banana''))
   \<and> CallTool (counting_handlers (echo_field ''limit'')) ''search''
        (Some (Map.empty(''query'' \<mapsto> JStr ''abba'', ''type'' \<mapsto> JStr ''track'',
                         ''limit'' \<mapsto> JStr ''banana''))) 0
       = (Inr (CallToolResult [TextContent (JSON_stringify (JStr ''banana''))]), 1)"
proof -
  let ?args = "Map.empty(''query'' \<mapsto> JStr ''abba'', ''type'' \<mapsto> JStr ''track'',
                         ''limit'' \<mapsto> JStr ''banana'')"
  have 1: "\<forall>f \<in> set [''query'', ''type'']. ?args f \<noteq> None" by simp
  have 2: "CallTool (counting_handlers (echo_field ''limit'')) ''search'' (Some ?args) 0
           = (Inr (CallToolResult [TextContent (JSON_stringify (JStr ''banana''))]), 1)"
    by (simp add: CallTool_def switch_search validated_call_present [OF 1] json_result_def
        catch_block_def counting_handlers_def echo_field_def)
  from present_fields_pass_validation
         [OF 1, where t = tool_search and h = "counting_handlers (echo_field ''limit'')"
            and w = "0 :: nat"]
  have "validateArgs (Some ?args) [''query'', ''type''] = Inr ?args" by (rule conjunct1)
  with 2 show ?thesis by simp
qed

section \<open>Tools without required fields\<close>

text \<open>
  Claim C10. For the four tools without required fields, a call without an argument
  object does not fail in validation: \<^verbatim>\<open>get_access_token\<close> and
  \<^verbatim>\<open>get_available_genres\<close> call their method without looking at the arguments,
  \<^verbatim>\<open>get_new_releases\<close> and \<^verbatim>\<open>get_recommendations\<close> put the empty object in
  the place of the absent one, which passes validation, and call their handler with it.
  In each case the outcome of the call is the outcome of the method.
\<close>

theorem absent_arguments_without_required_fields:
  "CallTool h ''get_access_token'' None w
     = catch_block (case getAccessToken h w of
                      (Inl t, w') \<Rightarrow> (Inl t, w')
                    | (Inr token, w') \<Rightarrow> (Inr (CallToolResult [TextContent token]), w'))
   \<and> CallTool h ''get_available_genres'' None w
       = catch_block (json_result (getAvailableGenres h w))
   \<and> validateArgs (or_empty None) [] = Inr Map.empty
   \<and> CallTool h ''get_new_releases'' None w
       = catch_block (json_result (getNewReleases h Map.empty w))
   \<and> CallTool h ''get_recommendations'' None w
       = catch_block (json_result (getRecommendations h Map.empty w))"
  by (simp add: CallTool_def switch_get_access_token switch_get_available_genres
      switch_get_new_releases switch_get_recommendations validated_call_def
      validateArgs_def or_empty_def)

theorem absent_arguments_without_required_fields_witness:
  "CallTool (counting_handlers (\<lambda>args. JArr []) :: (json, nat) handlers)
       ''get_access_token'' None 0
     = (Inr (CallToolResult [TextContent ''token'']), 1)
   \<and> CallTool (counting_handlers (\<lambda>args. JArr []) :: (json, nat) handlers)
       ''get_available_genres'' None 0
     = (Inr (CallToolResult [TextContent ''[]'']), 1)
   \<and> validateArgs (or_empty None) [] = Inr (Map.empty :: json arguments)
   \<and> CallTool (counting_handlers (\<lambda>args. JArr []) :: (json, nat) handlers)
       ''get_new_releases'' None 0
     = (Inr (CallToolResult [TextContent ''[]'']), 1)
   \<and> CallTool (counting_handlers (\<lambda>args. JArr []) :: (json, nat) handlers)
       ''get_recommendations'' None 0
     = (Inr (CallToolResult [TextContent ''[]'']), 1)"
  using absent_arguments_without_required_fields
    [of "counting_handlers (\<lambda>args. JArr []) :: (json, nat) handlers" "0 :: nat"]
  by (simp add: counting_handlers_def json_result_def catch_block_def JSON_stringify_def)

section \<open>The errors of the dispatcher\<close>

lemma api_call_thrown:
  "api_call endpoint upstream op params w = (Inl t, w') \<Longrightarrow> \<exists>d. t = ThrownOther d"
  by (auto simp add: api_call_def Let_def split: prod.splits sum.splits response.splits if_splits)

lemma auth_getAccessToken_thrown:
  "auth_getAccessToken endpoint w = (Inl t, w') \<Longrightarrow> \<exists>d. t = ThrownOther d"
  by (auto simp add: auth_getAccessToken_def split: prod.splits sum.splits)

lemma spec_handlers_thrown:
  assumes "(tool, prepare, req, m) \<in> set (routes (spec_handlers endpoint upstream))"
    and "m a w = (Inl t, w')"
  shows "\<exists>d. t = ThrownOther d"
  using assms(1)
proof (cases rule: routes_cases)
qed (use assms(2) in \<open>auto simp add: spec_handlers_def dest: api_call_thrown\<close>)

lemma catch_block_thrown:
  "catch_block (Inl t, w')
   = (Inl (case t of
             ThrownMcp e \<Rightarrow> ThrownMcp e
           | ThrownOther d \<Rightarrow> ThrownMcp (McpError InternalError (''Unexpected error: '' @ d))
           | ThrownUnprintable u \<Rightarrow> u), w')"
  by (simp add: catch_block_def split: thrown.splits)

lemma json_result_Inl: "json_result (Inl t, w') = (Inl t, w')"
  by (simp add: json_result_def)

lemma CallTool_thrown:
  assumes "CallTool h tool arguments w = (Inl t, w')"
  shows "\<exists>t0. tool_switch h tool arguments w = (Inl t0, w')
           \<and> ((\<exists>e. t0 = ThrownMcp e \<and> t = t0)
                \<or> (\<exists>d. t0 = ThrownOther d
                       \<and> t = ThrownMcp (McpError InternalError (''Unexpected error: '' @ d)))
                \<or> t0 = ThrownUnprintable t)"
proof (cases "tool_switch h tool arguments w")
  case (Pair r w1)
  with assms show ?thesis
    by (cases r) (auto simp add: CallTool_def catch_block_def split: thrown.splits)
qed

text \<open>
  Claim C3. What is thrown inside the \<^verbatim>\<open>try\<close> block leaves the dispatcher as
  follows. A failed validation is an \<^verbatim>\<open>McpError\<close> with code \<^verbatim>\<open>InvalidParams\<close>
  and is passed on as it is. When the handler method of a tool throws, an
  \<^verbatim>\<open>McpError\<close> is passed on unchanged, with its code and its message; any other
  value is replaced by an \<^verbatim>\<open>McpError\<close> with code \<^verbatim>\<open>InternalError\<close> whose message
  is \<^verbatim>\<open>Unexpected error: \<close> followed by the string form of the value (a value that
  has no string form lets the exception of its conversion escape instead). Conversely,
  every error of the dispatcher is an \<^verbatim>\<open>McpError\<close> with one of the codes
  \<^verbatim>\<open>InvalidParams\<close>, \<^verbatim>\<open>MethodNotFound\<close>, \<^verbatim>\<open>InternalError\<close>, unless it is an
  \<^verbatim>\<open>McpError\<close> that a handler method threw, or what the conversion of a value thrown
  by a handler method threw. With the collaborators of the spec, which throw
  authentication errors and API errors and nothing else, every error of the dispatcher
  is an \<^verbatim>\<open>McpError\<close> with one of the three codes.
\<close>

theorem dispatcher_errors_are_protocol_errors:
  fixes h :: "('v, 'w) handlers"
  shows "(\<forall>(tool, prepare, req, m) \<in> set (routes h). \<forall>arguments w.
            (\<forall>e. validateArgs (prepare arguments) req = Inl e \<longrightarrow>
                 code e = InvalidParams
                 \<and> CallTool h tool arguments w = (Inl (ThrownMcp e), w))
            \<and> (\<forall>args t w'. validateArgs (prepare arguments) req = Inr args
                    \<and> m args w = (Inl t, w') \<longrightarrow>
                 CallTool h tool arguments w
                 = (Inl (case t of
                           ThrownMcp e \<Rightarrow> ThrownMcp e
                         | ThrownOther d \<Rightarrow>
                             ThrownMcp (McpError InternalError (''Unexpected error: '' @ d))
                         | ThrownUnprintable u \<Rightarrow> u), w')))
         \<and> (\<forall>arguments w t w'. getAccessToken h w = (Inl t, w') \<longrightarrow>
               CallTool h ''get_access_token'' arguments w
               = (Inl (case t of
                         ThrownMcp e \<Rightarrow> ThrownMcp e
                       | ThrownOther d \<Rightarrow>
                           ThrownMcp (McpError InternalError (''Unexpected error: '' @ d))
                       | ThrownUnprintable u \<Rightarrow> u), w'))
         \<and> (\<forall>arguments w t w'. getAvailableGenres h w = (Inl t, w') \<longrightarrow>
               CallTool h ''get_available_genres'' arguments w
               = (Inl (case t of
                         ThrownMcp e \<Rightarrow> ThrownMcp e
                       | ThrownOther d \<Rightarrow>
                           ThrownMcp (McpError InternalError (''Unexpected error: '' @ d))
                       | ThrownUnprintable u \<Rightarrow> u), w'))
         \<and> (\<forall>tool arguments w t w'. CallTool h tool arguments w = (Inl t, w') \<longrightarrow>
               (\<exists>e. t = ThrownMcp e \<and> code e \<in> {InvalidParams, MethodNotFound, InternalError})
               \<or> (\<exists>t0. (getAccessToken h w = (Inl t0, w')
                         \<or> getAvailableGenres h w = (Inl t0, w')
                         \<or> (\<exists>(tool', prepare, req, m) \<in> set (routes h).
                               tool' = tool \<and> (\<exists>a. m a w = (Inl t0, w'))))
                        \<and> ((\<exists>e. t0 = ThrownMcp e \<and> t = t0) \<or> t0 = ThrownUnprintable t)))
         \<and> (\<forall>endpoint upstream tool arguments w t w'.
               CallTool (spec_handlers endpoint upstream) tool arguments w = (Inl t, w') \<longrightarrow>
               (\<exists>e. t = ThrownMcp e
                    \<and> code e \<in> {InvalidParams, MethodNotFound, InternalError}))"
proof (intro conjI allI impI ballI)
  fix x :: "string \<times> ('v arguments option \<Rightarrow> 'v arguments option) \<times> string list
              \<times> ('v arguments \<Rightarrow> 'w \<Rightarrow> (thrown + json) \<times> 'w)"
  assume x: "x \<in> set (routes h)"
  obtain tool prepare req m where x_def: "x = (tool, prepare, req, m)" by (cases x)
  from x x_def have route: "(tool, prepare, req, m) \<in> set (routes h)" by simp
  have sw: "CallTool h tool arguments w = catch_block (validated_call (prepare arguments) req m w)"
    for arguments w
    by (simp add: CallTool_def routes_switch [OF route])
  have invalid: "code e = InvalidParams \<and> CallTool h tool arguments w = (Inl (ThrownMcp e), w)"
    if "validateArgs (prepare arguments) req = Inl e" for arguments w e
    using that validateArgs_error [OF that]
    by (simp add: sw validated_call_def catch_block_def)
  have thrown: "CallTool h tool arguments w
                 = (Inl (case t of
                           ThrownMcp e \<Rightarrow> ThrownMcp e
                         | ThrownOther d \<Rightarrow>
                             ThrownMcp (McpError InternalError (''Unexpected error: '' @ d))
                         | ThrownUnprintable u \<Rightarrow> u), w')"
    if "validateArgs (prepare arguments) req = Inr args \<and> m args w = (Inl t, w')"
    for arguments w args t w'
    using that by (simp add: sw validated_call_def json_result_Inl catch_block_thrown)
  from invalid thrown
  show "case x of (tool, prepare, req, m) \<Rightarrow> \<forall>arguments w.
            (\<forall>e. validateArgs (prepare arguments) req = Inl e \<longrightarrow>
                 code e = InvalidParams
                 \<and> CallTool h tool arguments w = (Inl (ThrownMcp e), w))
            \<and> (\<forall>args t w'. validateArgs (prepare arguments) req = Inr args
                    \<and> m args w = (Inl t, w') \<longrightarrow>
                 CallTool h tool arguments w
                 = (Inl (case t of
                           ThrownMcp e \<Rightarrow> ThrownMcp e
                         | ThrownOther d \<Rightarrow>
                             ThrownMcp (McpError InternalError (''Unexpected error: '' @ d))
                         | ThrownUnprintable u \<Rightarrow> u), w'))"
    unfolding x_def by blast
next
  fix arguments :: "'v arguments option" and w w' :: 'w and t
  assume "getAccessToken h w = (Inl t, w')"
  then show "CallTool h ''get_access_token'' arguments w
               = (Inl (case t of
                         ThrownMcp e \<Rightarrow> ThrownMcp e
                       | ThrownOther d \<Rightarrow>
                           ThrownMcp (McpError InternalError (''Unexpected error: '' @ d))
                       | ThrownUnprintable u \<Rightarrow> u), w')"
    by (simp add: CallTool_def switch_get_access_token catch_block_thrown)
next
  fix arguments :: "'v arguments option" and w w' :: 'w and t
  assume "getAvailableGenres h w = (Inl t, w')"
  then show "CallTool h ''get_available_genres'' arguments w
               = (Inl (case t of
                         ThrownMcp e \<Rightarrow> ThrownMcp e
                       | ThrownOther d \<Rightarrow>
                           ThrownMcp (McpError InternalError (''Unexpected error: '' @ d))
                       | ThrownUnprintable u \<Rightarrow> u), w')"
    by (simp add: CallTool_def switch_get_available_genres json_result_Inl catch_block_thrown)
next
  fix tool and arguments :: "'v arguments option" and w w' :: 'w and t
  assume "CallTool h tool arguments w = (Inl t, w')"
  from CallTool_thrown [OF this] obtain t0 where
    sw: "tool_switch h tool arguments w = (Inl t0, w')"
    and shape: "(\<exists>e. t0 = ThrownMcp e \<and> t = t0)
                \<or> (\<exists>d. t0 = ThrownOther d
                       \<and> t = ThrownMcp (McpError InternalError (''Unexpected error: '' @ d)))
                \<or> t0 = ThrownUnprintable t"
    by blast
  from switch_thrown [OF sw]
  have origin: "(\<exists>e. t0 = ThrownMcp e \<and> code e \<in> {InvalidParams, MethodNotFound})
      \<or> getAccessToken h w = (Inl t0, w')
      \<or> getAvailableGenres h w = (Inl t0, w')
      \<or> (\<exists>(tool', prepare, req, m) \<in> set (routes h).
             tool' = tool \<and> (\<exists>a. m a w = (Inl t0, w')))"
    by blast
  from shape origin
  show "(\<exists>e. t = ThrownMcp e \<and> code e \<in> {InvalidParams, MethodNotFound, InternalError})
        \<or> (\<exists>t0. (getAccessToken h w = (Inl t0, w')
                  \<or> getAvailableGenres h w = (Inl t0, w')
                  \<or> (\<exists>(tool', prepare, req, m) \<in> set (routes h).
                        tool' = tool \<and> (\<exists>a. m a w = (Inl t0, w'))))
                 \<and> ((\<exists>e. t0 = ThrownMcp e \<and> t = t0) \<or> t0 = ThrownUnprintable t))"
    by (elim disjE exE conjE) (simp_all, blast+)
next
  fix endpoint upstream tool and arguments :: "json arguments option"
    and w w' :: api_world and t
  let ?h = "spec_handlers endpoint upstream"
  assume "CallTool ?h tool arguments w = (Inl t, w')"
  from CallTool_thrown [OF this] obtain t0 where
    sw: "tool_switch ?h tool arguments w = (Inl t0, w')"
    and shape: "(\<exists>e. t0 = ThrownMcp e \<and> t = t0)
                \<or> (\<exists>d. t0 = ThrownOther d
                       \<and> t = ThrownMcp (McpError InternalError (''Unexpected error: '' @ d)))
                \<or> t0 = ThrownUnprintable t"
    by blast
  from switch_thrown [OF sw]
  have origin: "(\<exists>e. t0 = ThrownMcp e \<and> code e \<in> {InvalidParams, MethodNotFound})
      \<or> (\<exists>d. t0 = ThrownOther d)"
  proof (elim disjE)
    assume "getAccessToken ?h w = (Inl t0, w')"
    then have "auth_getAccessToken endpoint w = (Inl t0, w')" by (simp add: spec_handlers_def)
    then show ?thesis by (auto dest: auth_getAccessToken_thrown)
  next
    assume "getAvailableGenres ?h w = (Inl t0, w')"
    then have "api_call endpoint upstream OpGetAvailableGenres Map.empty w = (Inl t0, w')"
      by (simp add: spec_handlers_def)
    then show ?thesis by (auto dest: api_call_thrown)
  next
    assume "\<exists>(tool', prepare, req, m) \<in> set (routes ?h).
               tool' = tool \<and> (\<exists>a. validateArgs (prepare arguments) req = Inr a
                                    \<and> m a w = (Inl t0, w'))"
    then obtain prepare req m a where "(tool, prepare, req, m) \<in> set (routes ?h)"
      and "m a w = (Inl t0, w')" by blast
    from spec_handlers_thrown [OF this] show ?thesis by simp
  qed auto
  with shape
  show "\<exists>e. t = ThrownMcp e \<and> code e \<in> {InvalidParams, MethodNotFound, InternalError}"
    by auto
qed

theorem dispatcher_errors_are_protocol_errors_witness:
  "CallTool (throwing_handlers (ThrownOther ''Error: connect ETIMEDOUT'')) ''get_artist''
     (Some (Map.empty(''id'' \<mapsto> JStr ''0TnOYISbd1XYRBk9myaseg''))) 0
     = (Inl (ThrownMcp (McpError InternalError ''Unexpected error: Error: connect ETIMEDOUT'')), 1)
   \<and> CallTool (throwing_handlers (ThrownMcp (McpError InvalidParams ''Invalid artist id'')))
       ''get_artist'' (Some (Map.empty(''id'' \<mapsto> JStr ''?''))) 0
     = (Inl (ThrownMcp (McpError InvalidParams ''Invalid artist id'')), 1)
   \<and> CallTool (throwing_handlers (ThrownOther ''Error: connect ETIMEDOUT'')) ''get_artist''
       (Some (Map.empty :: json arguments)) 0
     = (Inl (ThrownMcp (McpError InvalidParams ''Missing required field: id'')), 0)
   \<and> fst (CallTool (spec_handlers hourly_endpoint refusing_service) ''get_artist''
        (Some (Map.empty(''id'' \<mapsto> JStr ''0TnOYISbd1XYRBk9myaseg'')))
        \<lparr>clock = 1000, held_token = None, exchanges = 0, requests = []\<rparr>)
     = Inl (ThrownMcp (McpError InternalError
              (''Unexpected error: '' @ ApiError_text
                 (ApiError 401 (JObj [(''error'', JStr ''invalid_token'')])))))"
proof -
  let ?id = "Map.empty(''id'' \<mapsto> JStr ''0TnOYISbd1XYRBk9myaseg'')"
  let ?h1 = "throwing_handlers (ThrownOther ''Error: connect ETIMEDOUT'') :: (json, nat) handlers"
  let ?h2 = "throwing_handlers (ThrownMcp (McpError InvalidParams ''Invalid artist id''))
               :: (json, nat) handlers"
  note thm1 = dispatcher_errors_are_protocol_errors [of ?h1, THEN conjunct1, THEN bspec,
      OF routes_member(2), simplified prod.case, rule_format]
  note thm2 = dispatcher_errors_are_protocol_errors [of ?h2, THEN conjunct1, THEN bspec,
      OF routes_member(2), simplified prod.case, rule_format]
  have v1: "validateArgs (Some ?id) [''id''] = Inr ?id"
    by (simp add: validateArgs_def required_not_inherited)
  have v2: "validateArgs (Some (Map.empty(''id'' \<mapsto> JStr ''?''))) [''id'']
            = Inr (Map.empty(''id'' \<mapsto> JStr ''?''))"
    by (simp add: validateArgs_def required_not_inherited)
  have v3: "validateArgs (Some (Map.empty :: json arguments)) [''id'']
            = Inl (McpError InvalidParams ''Missing required field: id'')"
    by (simp add: validateArgs_def required_not_inherited)
  have 1: "CallTool ?h1 ''get_artist'' (Some ?id) 0
     = (Inl (ThrownMcp (McpError InternalError ''Unexpected error: Error: connect ETIMEDOUT'')), 1)"
    using thm1 [THEN conjunct2, rule_format, of "Some ?id" ?id 0
                  "ThrownOther ''Error: connect ETIMEDOUT''" 1] v1
    by (simp add: throwing_handlers_def)
  have 2: "CallTool ?h2 ''get_artist'' (Some (Map.empty(''id'' \<mapsto> JStr ''?''))) 0
     = (Inl (ThrownMcp (McpError InvalidParams ''Invalid artist id'')), 1)"
    using thm2 [THEN conjunct2, rule_format, of "Some (Map.empty(''id'' \<mapsto> JStr ''?''))"
                  "Map.empty(''id'' \<mapsto> JStr ''?'')" 0
                  "ThrownMcp (McpError InvalidParams ''Invalid artist id'')" 1] v2
    by (simp add: throwing_handlers_def)
  have 3: "CallTool ?h1 ''get_artist'' (Some (Map.empty :: json arguments)) 0
     = (Inl (ThrownMcp (McpError InvalidParams ''Missing required field: id'')), 0)"
    using thm1 [THEN conjunct1, rule_format, of "Some Map.empty" _ 0] v3 by simp
  have 4: "fst (CallTool (spec_handlers hourly_endpoint refusing_service) ''get_artist''
        (Some ?id) \<lparr>clock = 1000, held_token = None, exchanges = 0, requests = []\<rparr>)
     = Inl (ThrownMcp (McpError InternalError
              (''Unexpected error: '' @ ApiError_text
                 (ApiError 401 (JObj [(''error'', JStr ''invalid_token'')])))))"
    by (simp add: CallTool_def switch_get_artist validated_call_def v1 json_result_def
        catch_block_def spec_handlers_def api_call_def getValidToken_def exchange_token_def
        hourly_endpoint_def refusing_service_def Let_def)
  from 1 2 3 4 show ?thesis by (intro conjI)
qed

section \<open>The declared catalog\<close>

text \<open>
  Claim C9. The dispatcher declares exactly the fifteen tools of the catalog, each with
  the required arguments of the table: \<^verbatim>\<open>query\<close> and \<^verbatim>\<open>type\<close> for
  \<^verbatim>\<open>search\<close>, \<^verbatim>\<open>id\<close> for the eight single-id tools, \<^verbatim>\<open>ids\<close> for the two
  multiple-id tools, none for the other four. The switch of the call handler agrees
  with the declaration: for every declared tool that takes arguments it validates the
  declared required fields, no more and no fewer, before it calls a handler method.
\<close>

theorem catalog_declares_fifteen_tools:
  "map (\<lambda>t. (name t, declared_required t)) ListTools =
     [(''get_access_token'', []),
      (''search'', [''query'', ''type'']),
      (''get_artist'', [''id'']),
      (''get_multiple_artists'', [''ids'']),
      (''get_artist_top_tracks'', [''id'']),
      (''get_artist_related_artists'', [''id'']),
      (''get_artist_albums'', [''id'']),
      (''get_album'', [''id'']),
      (''get_album_tracks'', [''id'']),
      (''get_multiple_albums'', [''ids'']),
      (''get_track'', [''id'']),
      (''get_available_genres'', []),
      (''get_new_releases'', []),
      (''get_recommendations'', []),
      (''get_audiobook'', [''id''])]
   \<and> length ListTools = 15
   \<and> (\<forall>t \<in> set ListTools.
         name t = ''get_access_token'' \<or> name t = ''get_available_genres''
         \<or> (\<exists>m \<in> set (argument_methods (h :: ('v, 'w) handlers)). \<forall>arguments w.
               tool_switch h (name t) arguments w
               = validated_call
                   (if declared_required t = [] then or_empty arguments else arguments)
                   (declared_required t) m w))"
proof (intro conjI ballI)
  show "map (\<lambda>t. (name t, declared_required t)) ListTools =
     [(''get_access_token'', []),
      (''search'', [''query'', ''type'']),
      (''get_artist'', [''id'']),
      (''get_multiple_artists'', [''ids'']),
      (''get_artist_top_tracks'', [''id'']),
      (''get_artist_related_artists'', [''id'']),
      (''get_artist_albums'', [''id'']),
      (''get_album'', [''id'']),
      (''get_album_tracks'', [''id'']),
      (''get_multiple_albums'', [''ids'']),
      (''get_track'', [''id'']),
      (''get_available_genres'', []),
      (''get_new_releases'', []),
      (''get_recommendations'', []),
      (''get_audiobook'', [''id''])]"
    by (simp add: ListTools_def tool_names tool_required)
next
  show "length ListTools = 15" by (simp add: ListTools_def)
next
  fix t assume "t \<in> set ListTools"
  then show "name t = ''get_access_token'' \<or> name t = ''get_available_genres''
         \<or> (\<exists>m \<in> set (argument_methods h). \<forall>arguments w.
               tool_switch h (name t) arguments w
               = validated_call
                   (if declared_required t = [] then or_empty arguments else arguments)
                   (declared_required t) m w)"
    (is ?thesis)
  proof (cases rule: ListTools_cases)
    case 1
    then show ?thesis by (simp add: tool_names)
  next
    case 2
    have "\<forall>arguments w. tool_switch h (name t) arguments w
            = validated_call (if declared_required t = [] then or_empty arguments else arguments)
                (declared_required t) (search h) w"
      by (simp add: 2 tool_names tool_required switch_search)
    with argument_methods_member(1) show ?thesis by blast
  next
    case 3
    have "\<forall>arguments w. tool_switch h (name t) arguments w
            = validated_call (if declared_required t = [] then or_empty arguments else arguments)
                (declared_required t) (getArtist h) w"
      by (simp add: 3 tool_names tool_required switch_get_artist)
    with argument_methods_member(2) show ?thesis by blast
  next
    case 4
    have "\<forall>arguments w. tool_switch h (name t) arguments w
            = validated_call (if declared_required t = [] then or_empty arguments else arguments)
                (declared_required t) (getMultipleArtists h) w"
      by (simp add: 4 tool_names tool_required switch_get_multiple_artists)
    with argument_methods_member(3) show ?thesis by blast
  next
    case 5
    have "\<forall>arguments w. tool_switch h (name t) arguments w
            = validated_call (if declared_required t = [] then or_empty arguments else arguments)
                (declared_required t) (getArtistTopTracks h) w"
      by (simp add: 5 tool_names tool_required switch_get_artist_top_tracks)
    with argument_methods_member(4) show ?thesis by blast
  next
    case 6
    have "\<forall>arguments w. tool_switch h (name t) arguments w
            = validated_call (if declared_required t = [] then or_empty arguments else arguments)
                (declared_required t) (getArtistRelatedArtists h) w"
      by (simp add: 6 tool_names tool_required switch_get_artist_related_artists)
    with argument_methods_member(5) show ?thesis by blast
  next
    case 7
    have "\<forall>arguments w. tool_switch h (name t) arguments w
            = validated_call (if declared_required t = [] then or_empty arguments else arguments)
                (declared_required t) (getArtistAlbums h) w"
      by (simp add: 7 tool_names tool_required switch_get_artist_albums)
    with argument_methods_member(6) show ?thesis by blast
  next
    case 8
    have "\<forall>arguments w. tool_switch h (name t) arguments w
            = validated_call (if declared_required t = [] then or_empty arguments else arguments)
                (declared_required t) (getAlbum h) w"
      by (simp add: 8 tool_names tool_required switch_get_album)
    with argument_methods_member(7) show ?thesis by blast
  next
    case 9
    have "\<forall>arguments w. tool_switch h (name t) arguments w
            = validated_call (if declared_required t = [] then or_empty arguments else arguments)
                (declared_required t) (getAlbumTracks h) w"
      by (simp add: 9 tool_names tool_required switch_get_album_tracks)
    with argument_methods_member(8) show ?thesis by blast
  next
    case 10
    have "\<forall>arguments w. tool_switch h (name t) arguments w
            = validated_call (if declared_required t = [] then or_empty arguments else arguments)
                (declared_required t) (getMultipleAlbums h) w"
      by (simp add: 10 tool_names tool_required switch_get_multiple_albums)
    with argument_methods_member(9) show ?thesis by blast
  next
    case 11
    have "\<forall>arguments w. tool_switch h (name t) arguments w
            = validated_call (if declared_required t = [] then or_empty arguments else arguments)
                (declared_required t) (getTrack h) w"
      by (simp add: 11 tool_names tool_required switch_get_track)
    with argument_methods_member(10) show ?thesis by blast
  next
    case 12
    then show ?thesis by (simp add: tool_names)
  next
    case 13
    have "\<forall>arguments w. tool_switch h (name t) arguments w
            = validated_call (if declared_required t = [] then or_empty arguments else arguments)
                (declared_required t) (getNewReleases h) w"
      by (simp add: 13 tool_names tool_required switch_get_new_releases)
    with argument_methods_member(11) show ?thesis by blast
  next
    case 14
    have "\<forall>arguments w. tool_switch h (name t) arguments w
            = validated_call (if declared_required t = [] then or_empty arguments else arguments)
                (declared_required t) (getRecommendations h) w"
      by (simp add: 14 tool_names tool_required switch_get_recommendations)
    with argument_methods_member(12) show ?thesis by blast
  next
    case 15
    have "\<forall>arguments w. tool_switch h (name t) arguments w
            = validated_call (if declared_required t = [] then or_empty arguments else arguments)
                (declared_required t) (getAudiobook h) w"
      by (simp add: 15 tool_names tool_required switch_get_audiobook)
    with argument_methods_member(13) show ?thesis by blast
  qed
qed


theorem catalog_declares_fifteen_tools_witness:
  "tool_search \<in> set ListTools
   \<and> name tool_search = ''search''
   \<and> declared_required tool_search = [''query'', ''type'']
   \<and> (\<exists>m \<in> set (argument_methods (counting_handlers (echo_field ''query''))).
         \<forall>arguments w.
           tool_switch (counting_handlers (echo_field ''query'')) ''search'' arguments w
           = validated_call arguments [''query'', ''type''] m w)"
proof -
  have 1: "tool_search \<in> set ListTools" by (simp add: ListTools_def)
  from catalog_declares_fifteen_tools [where h = "counting_handlers (echo_field ''query'')"]
  have "\<forall>t \<in> set ListTools.
         name t = ''get_access_token'' \<or> name t = ''get_available_genres''
         \<or> (\<exists>m \<in> set (argument_methods (counting_handlers (echo_field ''query''))).
               \<forall>arguments w.
               tool_switch (counting_handlers (echo_field ''query'')) (name t) arguments w
               = validated_call
                   (if declared_required t = [] then or_empty arguments else arguments)
                   (declared_required t) m w)"
    by (elim conjE)
  from bspec [OF this 1] 1 show ?thesis
    by (simp add: tool_names tool_required)
qed

section \<open>The declared bound on the number of ids\<close>






section \<open>The Token Manager\<close>

lemma exchange_token_count: "snd (snd (exchange_token endpoint now held)) = 1"
  by (simp add: exchange_token_def Let_def split: sum.splits)

lemma exchange_token_fresh:
  assumes "exchange_token endpoint now held = (Inr t, held', n)"
  shows "now \<le> expiry t \<and> held' = Some t \<and> n = 1"
  using assms by (auto simp add: exchange_token_def Let_def split: sum.splits)

lemma getValidToken_result:
  assumes "getValidToken endpoint now held = (Inr t, held', n)"
  shows "exchange_token endpoint now held = (Inr t, held', n)
         \<or> (held = Some t \<and> held' = held \<and> n = 0 \<and> now < expiry t - safety_margin)"
proof (cases held)
  case None
  with assms show ?thesis by (simp add: getValidToken_def)
next
  case (Some t1)
  show ?thesis
  proof (cases "expiry t1 - safety_margin \<le> now")
    case True
    with Some assms show ?thesis by (simp add: getValidToken_def)
  next
    case False
    with Some assms show ?thesis by (auto simp add: getValidToken_def)
  qed
qed

text \<open>
  Claim C2. \<^verbatim>\<open>getValidToken\<close> never returns a token past its expiry timestamp, and
  the expiry is checked with the safety margin of 60 seconds: a held token is returned
  without an exchange only while more than the margin remains before its expiry, and
  from 60 seconds before its expiry on it is treated as expired (the call goes to the
  token exchange).
\<close>

theorem valid_token_not_expired:
  "safety_margin = 60
   \<and> (getValidToken endpoint now held = (Inr t, held', n)
        \<longrightarrow> now \<le> expiry t \<and> held' = Some t
            \<and> (n = 0 \<longrightarrow> held = Some t \<and> now + safety_margin < expiry t))
   \<and> (held = Some t0 \<and> expiry t0 - safety_margin \<le> now
        \<longrightarrow> getValidToken endpoint now held = exchange_token endpoint now held)"
proof -
  have margin: "safety_margin = 60" by (simp add: safety_margin_def)
  have returned: "now \<le> expiry t \<and> held' = Some t
      \<and> (n = 0 \<longrightarrow> held = Some t \<and> now + safety_margin < expiry t)"
    if "getValidToken endpoint now held = (Inr t, held', n)"
  proof -
    from getValidToken_result [OF that] show ?thesis
    proof
      assume "exchange_token endpoint now held = (Inr t, held', n)"
      from exchange_token_fresh [OF this] show ?thesis by simp
    next
      assume "held = Some t \<and> held' = held \<and> n = 0 \<and> now < expiry t - safety_margin"
      then show ?thesis by (simp add: margin)
    qed
  qed
  have expired: "getValidToken endpoint now held = exchange_token endpoint now held"
    if "held = Some t0 \<and> expiry t0 - safety_margin \<le> now"
    using that by (simp add: getValidToken_def)
  from margin returned expired show ?thesis by blast
qed


theorem valid_token_not_expired_witness:
  "getValidToken (\<lambda>now. Inr (TokenResponse ''BQDfresh'' ''Bearer'' 3600)) 1000
       (Some (AccessToken ''BQDheld'' 5000 ''Bearer''))
     = (Inr (AccessToken ''BQDheld'' 5000 ''Bearer''),
        Some (AccessToken ''BQDheld'' 5000 ''Bearer''), 0)
   \<and> (1000 :: int) + safety_margin < expiry (AccessToken ''BQDheld'' 5000 ''Bearer'')
   \<and> expiry (AccessToken ''BQDheld'' 5000 ''Bearer'') - safety_margin \<le> 4940
   \<and> getValidToken (\<lambda>now. Inr (TokenResponse ''BQDfresh'' ''Bearer'' 3600)) 4940
       (Some (AccessToken ''BQDheld'' 5000 ''Bearer''))
     = exchange_token (\<lambda>now. Inr (TokenResponse ''BQDfresh'' ''Bearer'' 3600)) 4940
       (Some (AccessToken ''BQDheld'' 5000 ''Bearer''))
   \<and> exchange_token (\<lambda>now. Inr (TokenResponse ''BQDfresh'' ''Bearer'' 3600)) 4940
       (Some (AccessToken ''BQDheld'' 5000 ''Bearer''))
     = (Inr (AccessToken ''BQDfresh'' 8540 ''Bearer''),
        Some (AccessToken ''BQDfresh'' 8540 ''Bearer''), 1)"
proof -
  let ?e = "\<lambda>now :: int. Inr (TokenResponse ''BQDfresh'' ''Bearer'' 3600) :: AuthenticationError + TokenResponse"
  let ?t = "AccessToken ''BQDheld'' 5000 ''Bearer''"
  have 1: "getValidToken ?e 1000 (Some ?t) = (Inr ?t, Some ?t, 0)"
    by (simp add: getValidToken_def safety_margin_def)
  have 2: "Some ?t = Some ?t \<and> expiry ?t - safety_margin \<le> 4940"
    by (simp add: safety_margin_def)
  have 3: "exchange_token ?e 4940 (Some ?t)
           = (Inr (AccessToken ''BQDfresh'' 8540 ''Bearer''),
              Some (AccessToken ''BQDfresh'' 8540 ''Bearer''), 1)"
    by (simp add: exchange_token_def Let_def)
  note a = valid_token_not_expired
    [where endpoint = ?e and now = 1000 and held = "Some ?t" and t = ?t and held' = "Some ?t"
       and n = 0, THEN conjunct2, THEN conjunct1, rule_format, OF 1]
  note b = valid_token_not_expired
    [where endpoint = ?e and now = 4940 and held = "Some ?t" and ?t0.0 = ?t,
       THEN conjunct2, THEN conjunct2, rule_format, OF 2]
  from a have 4: "(1000 :: int) + safety_margin < expiry ?t" by blast
  from 2 have 5: "expiry ?t - safety_margin \<le> 4940" by (rule conjunct2)
  from 1 4 5 b 3 show ?thesis by (intro conjI)
qed


lemma getValidToken_held:
  assumes "getValidToken endpoint now held = (Inr t, held', n)"
  shows "held' = Some t"
  using getValidToken_result [OF assms] exchange_token_fresh [of endpoint now held t held' n]
  by auto

lemma auth_getAccessToken_success:
  assumes "auth_getAccessToken endpoint w = (Inr v, w1)"
  shows "\<exists>tok. held_token w1 = Some tok \<and> v = token_value tok"
proof -
  obtain r held' n where g: "getValidToken endpoint (clock w) (held_token w) = (r, held', n)"
    by (cases "getValidToken endpoint (clock w) (held_token w)")
  with assms obtain tok where r: "r = Inr tok"
    by (cases r) (simp_all add: auth_getAccessToken_def)
  from getValidToken_held [OF g [unfolded r]] have "held' = Some tok" .
  with assms g r show ?thesis by (auto simp add: auth_getAccessToken_def)
qed

lemma auth_getAccessToken_within:
  assumes "held_token w = Some tok" and "clock w < expiry tok - safety_margin"
  shows "auth_getAccessToken endpoint w = (Inr (token_value tok), w)"
  using assms by (simp add: auth_getAccessToken_def getValidToken_def)

lemma auth_getAccessToken_expired:
  assumes "held_token w = Some tok" and "expiry tok - safety_margin \<le> clock w"
  shows "exchanges (snd (auth_getAccessToken endpoint w)) = exchanges w + 1"
proof -
  from assms have "getValidToken endpoint (clock w) (held_token w)
      = exchange_token endpoint (clock w) (held_token w)"
    by (simp add: getValidToken_def)
  then show ?thesis
    by (simp add: auth_getAccessToken_def exchange_token_def Let_def split: sum.splits)
qed

lemma call_get_access_token:
  "CallTool h ''get_access_token'' a w
   = (case getAccessToken h w of
        (Inl (ThrownMcp e), w') \<Rightarrow> (Inl (ThrownMcp e), w')
      | (Inl (ThrownOther d), w') \<Rightarrow>
          (Inl (ThrownMcp (McpError InternalError (''Unexpected error: '' @ d))), w')
      | (Inl (ThrownUnprintable t), w') \<Rightarrow> (Inl t, w')
      | (Inr token, w') \<Rightarrow> (Inr (CallToolResult [TextContent token]), w'))"
  by (simp add: CallTool_def switch_get_access_token catch_block_def
      split: prod.splits sum.splits thrown.splits)

text \<open>
  Claim C6. After a \<^verbatim>\<open>get_access_token\<close> call that returned a token, the Token
  Manager holds that token. Every further call at an instant within the validity
  window of the held token, which the Token Manager counts up to its expiry less the
  safety margin, returns the same token value and leaves the world as it is, the count
  of exchange calls included: no second exchange is made. A call at a later instant,
  so every call at or after the expiry of the held token, makes exactly one exchange
  call.
\<close>

theorem access_token_reused_until_expiry:
  fixes h :: "('v, auth_world) handlers"
  assumes tm: "getAccessToken h = auth_getAccessToken endpoint"
    and first: "CallTool h ''get_access_token'' a1 w = (Inr r1, w1)"
  shows "\<exists>tok. held_token w1 = Some tok \<and> r1 = CallToolResult [TextContent (token_value tok)]
           \<and> (\<forall>t2 a2. t2 < expiry tok - safety_margin \<longrightarrow>
                 CallTool h ''get_access_token'' a2 (w1\<lparr>clock := t2\<rparr>)
                 = (Inr r1, w1\<lparr>clock := t2\<rparr>))
           \<and> (\<forall>t3 a3. expiry tok - safety_margin \<le> t3 \<longrightarrow>
                 exchanges (snd (CallTool h ''get_access_token'' a3 (w1\<lparr>clock := t3\<rparr>)))
                 = exchanges w1 + 1)"
proof -
  from first obtain v where v: "auth_getAccessToken endpoint w = (Inr v, w1)"
    and r1: "r1 = CallToolResult [TextContent v]"
    by (auto simp add: call_get_access_token tm split: prod.splits sum.splits thrown.splits)
  from auth_getAccessToken_success [OF v] obtain tok where
    tok: "held_token w1 = Some tok" "v = token_value tok" by blast
  have again: "CallTool h ''get_access_token'' a2 (w1\<lparr>clock := t2\<rparr>)
                 = (Inr r1, w1\<lparr>clock := t2\<rparr>)"
    if "t2 < expiry tok - safety_margin" for t2 a2
  proof -
    have "auth_getAccessToken endpoint (w1\<lparr>clock := t2\<rparr>)
          = (Inr (token_value tok), w1\<lparr>clock := t2\<rparr>)"
      by (rule auth_getAccessToken_within) (simp_all add: tok that)
    then show ?thesis by (simp add: call_get_access_token tm r1 tok)
  qed
  have after: "exchanges (snd (CallTool h ''get_access_token'' a3 (w1\<lparr>clock := t3\<rparr>)))
                 = exchanges w1 + 1"
    if "expiry tok - safety_margin \<le> t3" for t3 a3
  proof -
    have "exchanges (snd (auth_getAccessToken endpoint (w1\<lparr>clock := t3\<rparr>)))
          = exchanges (w1\<lparr>clock := t3\<rparr>) + 1"
      by (rule auth_getAccessToken_expired [where tok = tok]) (simp_all add: tok that)
    then show ?thesis
      by (auto simp add: call_get_access_token tm split: prod.splits sum.splits thrown.splits)
  qed
  from tok r1 again after show ?thesis by blast
qed

theorem access_token_reused_until_expiry_witness:
  "getAccessToken (token_manager_handlers hourly_endpoint :: (json, auth_world) handlers)
     = auth_getAccessToken hourly_endpoint
   \<and> CallTool (token_manager_handlers hourly_endpoint :: (json, auth_world) handlers)
        ''get_access_token'' None \<lparr>clock = 1000, held_token = None, exchanges = 0\<rparr>
     = (Inr (CallToolResult [TextContent ''BQDfresh'']),
        \<lparr>clock = 1000, held_token = Some (AccessToken ''BQDfresh'' 4600 ''Bearer''),
         exchanges = 1\<rparr>)
   \<and> CallTool (token_manager_handlers hourly_endpoint :: (json, auth_world) handlers)
        ''get_access_token'' None
        \<lparr>clock = 4539, held_token = Some (AccessToken ''BQDfresh'' 4600 ''Bearer''),
         exchanges = 1\<rparr>
     = (Inr (CallToolResult [TextContent ''BQDfresh'']),
        \<lparr>clock = 4539, held_token = Some (AccessToken ''BQDfresh'' 4600 ''Bearer''),
         exchanges = 1\<rparr>)
   \<and> exchanges (snd (CallTool (token_manager_handlers hourly_endpoint :: (json, auth_world) handlers)
        ''get_access_token'' None
        \<lparr>clock = 4600, held_token = Some (AccessToken ''BQDfresh'' 4600 ''Bearer''),
         exchanges = 1\<rparr>))
     = 2"
proof -
  let ?h = "token_manager_handlers hourly_endpoint :: (json, auth_world) handlers"
  let ?tok = "AccessToken ''BQDfresh'' 4600 ''Bearer''"
  let ?w1 = "\<lparr>clock = 1000, held_token = Some ?tok, exchanges = 1\<rparr>"
  have tm: "getAccessToken ?h = auth_getAccessToken hourly_endpoint"
    by (simp add: token_manager_handlers_def)
  have first: "CallTool ?h ''get_access_token'' None \<lparr>clock = 1000, held_token = None, exchanges = 0\<rparr>
     = (Inr (CallToolResult [TextContent ''BQDfresh'']), ?w1)"
    by (simp add: call_get_access_token tm auth_getAccessToken_def getValidToken_def
        exchange_token_def hourly_endpoint_def Let_def)
  from access_token_reused_until_expiry [OF tm first] obtain tok where
    held: "held_token ?w1 = Some tok"
    and again: "\<forall>t2 a2. t2 < expiry tok - safety_margin \<longrightarrow>
                 CallTool ?h ''get_access_token'' a2 (?w1\<lparr>clock := t2\<rparr>)
                 = (Inr (CallToolResult [TextContent ''BQDfresh'']), ?w1\<lparr>clock := t2\<rparr>)"
    and after: "\<forall>t3 a3. expiry tok - safety_margin \<le> t3 \<longrightarrow>
                 exchanges (snd (CallTool ?h ''get_access_token'' a3 (?w1\<lparr>clock := t3\<rparr>)))
                 = exchanges ?w1 + 1"
    by blast
  from held have tok: "tok = ?tok" by simp
  from again [rule_format, of 4539 None] have 2: "CallTool ?h ''get_access_token'' None
        \<lparr>clock = 4539, held_token = Some ?tok, exchanges = 1\<rparr>
     = (Inr (CallToolResult [TextContent ''BQDfresh'']),
        \<lparr>clock = 4539, held_token = Some ?tok, exchanges = 1\<rparr>)"
    by (simp add: tok safety_margin_def)
  from after [rule_format, of 4600 None] have 3:
    "exchanges (snd (CallTool ?h ''get_access_token'' None
        \<lparr>clock = 4600, held_token = Some ?tok, exchanges = 1\<rparr>)) = 2"
    by (simp add: tok safety_margin_def)
  from tm first 2 3 show ?thesis by (intro conjI)
qed

section \<open>The round trip through \<^verbatim>\<open>JSON.stringify\<close> and \<^verbatim>\<open>JSON.parse\<close>\<close>

lemma of_char_char_of: "n < 256 \<Longrightarrow> (of_char (char_of n :: char) :: nat) = n"
  by simp

lemma char_of_eq: "n < 256 \<Longrightarrow> (char_of (n :: nat) = c) = (n = of_char c)"
proof -
  assume n: "n < 256"
  have "(char_of n = c) = ((of_char (char_of n :: char) :: nat) = of_char c)"
    by (simp only: of_char_eq_iff)
  also have "\<dots> = (n = of_char c)" using n by simp
  finally show ?thesis .
qed



















declare parse_value.simps [simp del] parse_elements.simps [simp del] parse_members.simps [simp del]


lemma skip_ws_start: "\<not> is_ws c \<Longrightarrow> skip_ws (c # cs) = c # cs"
  by simp





lemma QuoteJSONString_start: "\<exists>cs. QuoteJSONString s = CHR 0x22 # cs"
  by (simp add: QuoteJSONString_def)



























text \<open>A value that has been read has used up input.\<close>

lemma length_read_digits: "read_digits acc s = (n, r) \<Longrightarrow> length r \<le> length s"
  by (induction s arbitrary: acc) (auto split: if_splits simp add: le_SucI)

lemma finish_number_rest: "finish_number negative n rest = Inr (v, r) \<Longrightarrow> r = rest"
  by (auto simp add: finish_number_def split: if_splits)

lemma length_parse_unsigned:
  assumes "parse_unsigned negative s = Inr (v, r)"
  shows "length r < length s"
proof (cases s)
  case Nil
  with assms show ?thesis by (simp add: parse_unsigned_def)
next
  case (Cons c cs)
  show ?thesis
  proof (cases "c = CHR ''0''")
    case True
    with assms Cons have "finish_number negative 0 cs = Inr (v, r)"
      by (simp add: parse_unsigned_def)
    from finish_number_rest [OF this] Cons show ?thesis by simp
  next
    case False
    with assms Cons have d: "is_digit c"
      by (auto simp add: parse_unsigned_def split: if_splits)
    obtain n rest where rd: "read_digits (digit_value c) cs = (n, rest)"
      by (cases "read_digits (digit_value c) cs")
    with assms Cons False d have "finish_number negative n rest = Inr (v, r)"
      by (simp add: parse_unsigned_def)
    from finish_number_rest [OF this] length_read_digits [OF rd] Cons show ?thesis by simp
  qed
qed

lemma length_parse_number:
  assumes "parse_number s = Inr (v, r)"
  shows "length r < length s"
proof (cases s)
  case Nil
  with assms show ?thesis by (simp add: parse_number_def)
next
  case (Cons c cs)
  show ?thesis
  proof (cases "c = CHR ''-''")
    case True
    with assms Cons have "parse_unsigned True cs = Inr (v, r)" by (simp add: parse_number_def)
    from length_parse_unsigned [OF this] Cons show ?thesis by simp
  next
    case False
    with assms Cons have "parse_unsigned False s = Inr (v, r)" by (simp add: parse_number_def)
    then show ?thesis by (rule length_parse_unsigned)
  qed
qed

lemma parse_consumes:
  "\<forall>v r. parse_value s = Inr (v, r) \<longrightarrow> length r < length s"
  "\<forall>xs r. parse_elements acc s = Inr (xs, r) \<longrightarrow> length r < length s"
  "\<forall>ms r. parse_members acc' s' = Inr (ms, r) \<longrightarrow> length r < length s'"
proof (induction s and acc s and acc' s' rule: parse_value_parse_elements_parse_members.induct)
  case (1 s)
  show ?case
  proof (intro allI impI)
    fix v r assume res: "parse_value s = Inr (v, r)"
    show "length r < length s"
    proof (cases s)
      case Nil
      with res show ?thesis by (simp add: parse_value.simps)
    next
      case (Cons c cs)
      note res' = res [unfolded Cons, unfolded parse_value.simps [of "c # cs"] list.case]
      consider (obj) "c = CHR ''{''" | (arr) "c \<noteq> CHR ''{''" "c = CHR ''[''"
        | (str) "c \<noteq> CHR ''{''" "c \<noteq> CHR ''[''" "c = CHR 0x22"
        | (lit) "c \<noteq> CHR ''{''" "c \<noteq> CHR ''[''" "c \<noteq> CHR 0x22"
            "c = CHR ''t'' \<or> c = CHR ''f'' \<or> c = CHR ''n''"
        | (num) "c \<noteq> CHR ''{''" "c \<noteq> CHR ''[''" "c \<noteq> CHR 0x22"
            "c \<noteq> CHR ''t''" "c \<noteq> CHR ''f''" "c \<noteq> CHR ''n''"
        by blast
      then show ?thesis
      proof cases
        case obj
        show ?thesis
        proof (cases "skip_ws cs")
          case Nil
          with res' obj show ?thesis by simp
        next
          case sk: (Cons d r0)
          from skip_ws_Cons [OF sk] have l0: "length r0 < length cs" .
          show ?thesis
          proof (cases "d = CHR ''}''")
            case True
            with res' obj sk l0 Cons show ?thesis by auto
          next
            case False
            with res' obj sk obtain ms where "parse_members [] (d # r0) = Inr (ms, r)"
              by (auto split: sum.splits)
            with "1.IH"(1) [OF Cons obj sk False] have "length r < length (d # r0)" by blast
            with l0 Cons show ?thesis by simp
          qed
        qed
      next
        case arr
        show ?thesis
        proof (cases "skip_ws cs")
          case Nil
          with res' arr show ?thesis by simp
        next
          case sk: (Cons d r0)
          from skip_ws_Cons [OF sk] have l0: "length r0 < length cs" .
          show ?thesis
          proof (cases "d = CHR '']''")
            case True
            with res' arr sk l0 Cons show ?thesis by auto
          next
            case False
            with res' arr sk obtain xs where "parse_elements [] (d # r0) = Inr (xs, r)"
              by (auto split: sum.splits)
            with "1.IH"(2) [OF Cons arr(1) arr(2) sk False] have "length r < length (d # r0)"
              by blast
            with l0 Cons show ?thesis by simp
          qed
        qed
      next
        case str
        with res' obtain k where "parse_string_body cs = Inr (k, r)"
          by (auto split: sum.splits)
        from length_parse_string_body [OF this] Cons show ?thesis by simp
      next
        case lit
        with res' have "\<exists>n. r = drop n cs" by (auto split: if_splits)
        with Cons show ?thesis by auto
      next
        case num
        with res' have "parse_number (c # cs) = Inr (v, r)" by simp
        from length_parse_number [OF this] Cons show ?thesis by simp
      qed
    qed
  qed
next
  case (2 acc s)
  show ?case
  proof (intro allI impI)
    fix xs r assume res: "parse_elements acc s = Inr (xs, r)"
    note res' = res [unfolded parse_elements.simps [of acc s]]
    from res' obtain v r1 where pv: "parse_value s = Inr (v, r1)"
      by (cases "parse_value s") auto
    with res' have g: "length r1 < length s" by (auto split: if_splits)
    from res' pv g obtain d r2 where sk: "skip_ws r1 = d # r2"
      by (cases "skip_ws r1") auto
    from skip_ws_Cons [OF sk] g have l2: "length r2 < length s" by simp
    show "length r < length s"
    proof (cases "d = CHR '',''")
      case True
      with res' pv g sk have "parse_elements (acc @ [v]) (skip_ws r2) = Inr (xs, r)" by simp
      with "2.IH"(2) [OF pv refl g sk True] have "length r < length (skip_ws r2)" by blast
      with length_skip_ws [of r2] l2 show ?thesis by simp
    next
      case False
      with res' pv g sk have "r = r2" by (auto split: if_splits)
      with l2 show ?thesis by simp
    qed
  qed
next
  case (3 acc s)
  show ?case
  proof (intro allI impI)
    fix ms r assume res: "parse_members acc s = Inr (ms, r)"
    note res' = res [unfolded parse_members.simps [of acc s]]
    from res' obtain q cs where s: "s = q # cs" by (cases s) auto
    from res' s have q: "q = CHR 0x22" by (auto split: if_splits)
    from res' s q obtain k r0 where ps: "parse_string_body cs = Inr (k, r0)"
      by (cases "parse_string_body cs") auto
    from res' s q ps obtain d r1 where sk: "skip_ws r0 = d # r1"
      by (cases "skip_ws r0") auto
    from res' s q ps sk have d: "d = CHR '':''" by (auto split: if_splits)
    from res' s q ps sk d obtain v r2 where pv: "parse_value (skip_ws r1) = Inr (v, r2)"
      by (cases "parse_value (skip_ws r1)") auto
    from res' s q ps sk d pv have g: "length r2 < length s" by (auto split: if_splits)
    from res' s q ps sk d pv g obtain d' r3 where sk': "skip_ws r2 = d' # r3"
      by (cases "skip_ws r2") auto
    from skip_ws_Cons [OF sk'] g have l3: "length r3 < length s" by simp
    show "length r < length s"
    proof (cases "d' = CHR '',''")
      case True
      with res' s q ps sk d pv g sk'
      have "parse_members (acc @ [(k, v)]) (skip_ws r3) = Inr (ms, r)" by simp
      with "3.IH"(2) [OF s q ps refl sk d pv refl g sk' True]
      have "length r < length (skip_ws r3)" by blast
      with length_skip_ws [of r3] l3 show ?thesis by simp
    next
      case False
      with res' s q ps sk d pv g sk' have "r = r3" by (auto split: if_splits)
      with l3 show ?thesis by simp
    qed
  qed
qed


text \<open>
  So the tests on the lengths in \<open>parse_elements\<close> and \<open>parse_members\<close> never fail:
  the two functions satisfy their equations without them.
\<close>

lemma parse_elements_without_test:
  "parse_elements acc s =
     (case parse_value s of
        Inl e \<Rightarrow> Inl e
      | Inr (v, r) \<Rightarrow>
          (case skip_ws r of
             [] \<Rightarrow> Inl SyntaxError
           | d # r' \<Rightarrow>
               if d = CHR '','' then parse_elements (acc @ [v]) (skip_ws r')
               else if d = CHR '']'' then Inr (acc @ [v], r')
               else Inl SyntaxError))"
proof (cases "parse_value s")
  case (Inl e)
  then show ?thesis by (subst parse_elements.simps) simp
next
  case (Inr p)
  obtain v r where p: "p = (v, r)" by (cases p)
  with Inr parse_consumes(1) [of s] have "length r < length s" by blast
  with Inr p show ?thesis by (subst parse_elements.simps) simp
qed

lemma parse_members_without_test:
  "parse_members acc s =
     (case s of
        [] \<Rightarrow> Inl SyntaxError
      | q # cs \<Rightarrow>
          if q = CHR 0x22 then
            (case parse_string_body cs of
               Inl e \<Rightarrow> Inl e
             | Inr (k, r) \<Rightarrow>
                 (case skip_ws r of
                    [] \<Rightarrow> Inl SyntaxError
                  | d # r1 \<Rightarrow>
                      if d = CHR '':'' then
                        (case parse_value (skip_ws r1) of
                           Inl e \<Rightarrow> Inl e
                         | Inr (v, r2) \<Rightarrow>
                             (case skip_ws r2 of
                                [] \<Rightarrow> Inl SyntaxError
                              | d' # r3 \<Rightarrow>
                                  if d' = CHR '','' then parse_members (acc @ [(k, v)]) (skip_ws r3)
                                  else if d' = CHR ''}'' then Inr (acc @ [(k, v)], r3)
                                  else Inl SyntaxError))
                      else Inl SyntaxError))
          else Inl SyntaxError)"
proof (cases s)
  case Nil
  then show ?thesis by (subst parse_members.simps) simp
next
  case s: (Cons q cs)
  show ?thesis
  proof (cases "parse_string_body cs")
    case (Inl e)
    with s show ?thesis by (subst parse_members.simps) simp
  next
    case (Inr p)
    obtain k r where p: "p = (k, r)" by (cases p)
    show ?thesis
    proof (cases "skip_ws r")
      case Nil
      with s Inr p show ?thesis by (subst parse_members.simps) simp
    next
      case sk: (Cons d r1)
      show ?thesis
      proof (cases "parse_value (skip_ws r1)")
        case (Inl e)
        with s Inr p sk show ?thesis by (subst parse_members.simps) simp
      next
        case pv: (Inr p')
        obtain v r2 where p': "p' = (v, r2)" by (cases p')
        from pv p' parse_consumes(1) [of "skip_ws r1"] have "length r2 < length (skip_ws r1)"
          by blast
        with length_skip_ws [of r1] skip_ws_Cons [OF sk]
          length_parse_string_body [OF Inr [unfolded p]] s
        have "length r2 < length s" by simp
        with s Inr p sk pv p' show ?thesis by (subst parse_members.simps) simp
      qed
    qed
  qed
qed


text \<open>An example of the text with the gap of two spaces.\<close>

lemma JSON_stringify_example:
  "JSON_stringify
     (JObj [(''name'', JStr ''ABBA''), (''ids'', JArr [JNum 1, JNum (- 20)]), (''none'', JArr [])])
   = ''{'' @ newline
     @ ''  '' @ [CHR 0x22] @ ''name'' @ [CHR 0x22] @ '': '' @ [CHR 0x22] @ ''ABBA'' @ [CHR 0x22]
     @ '','' @ newline
     @ ''  '' @ [CHR 0x22] @ ''ids'' @ [CHR 0x22] @ '': ['' @ newline
     @ ''    1,'' @ newline
     @ ''    -20'' @ newline
     @ ''  ],'' @ newline
     @ ''  '' @ [CHR 0x22] @ ''none'' @ [CHR 0x22] @ '': []'' @ newline
     @ ''}''"
  by (simp add: JSON_stringify_def QuoteJSONString_def escape_char_def show_int_def
      show_nat.simps digit_char_def char_of_eq newline_def)

section \<open>Successful results\<close>








end
